theory Spec2Isabelle
  imports Main
begin

section \<open>JavaScript values, errors and the observable effects of a handler\<close>

text \<open>
  The middleware of \<open>AuthProvider\<close> is asynchronous Express code. A handler is modelled as a
  function from the provider, the request and the session to the one answer it gives, the
  session it leaves behind, and the list of what it logged and which collaborators it
  called, in order. The session is the object express-session puts on the request; the
  handlers modelled here read \<open>req.session\<close> without testing it, so it is an argument.

  A string is a \<open>string\<close>: the UTF-8 bytes of the JavaScript string, which is taken to be
  well-formed Unicode. \<open>undefined\<close> is \<open>None\<close>. A value that came out of \<open>JSON.parse\<close> is a
  \<open>json\<close>; a number keeps the text it was written with, since the code never computes
  with one.
\<close>

datatype json =
    JNull
  | JBool bool
  | JNumber string
  | JString string
  | JArray "json list"
  | JObject "(string \<times> json) list"

type_synonym jsval = "json option"

abbreviation jstr :: "string \<Rightarrow> jsval" where
  "jstr s \<equiv> Some (JString s)"

text \<open>
  What a handler can throw, or pass to \<open>next(error)\<close>. \<open>InteractionRequiredAuthError\<close> is the
  class the \<open>catch\<close> of \<open>getToken\<close> tests with \<open>instanceof\<close>; \<open>OtherError\<close> is any other
  error of a collaborator.
\<close>

datatype js_error =
    InteractionRequiredAuthError
  | TypeError
  | SyntaxError
  | OtherError string

text \<open>
  \<open>ErrorMessages\<close> and \<open>InfoMessages\<close> of \<open>./Constants\<close>: the members the code logs. The
  texts behind the members are not used by the code, so the members stand for themselves.
\<close>

datatype ErrorMessages =
    NOT_PERMITTED
  | INVALID_TOKEN
  | CANNOT_DETERMINE_APP_STAGE
  | CANNOT_VALIDATE_TOKEN
  | NONCE_MISMATCH
  | INTERACTION_REQUIRED
  | TOKEN_ACQUISITION_FAILED
  | TOKEN_NOT_FOUND
  | AUTH_CODE_NOT_OBTAINED
  | STATE_NOT_FOUND
  | USER_HAS_NO_ROLE
  | USER_HAS_NO_GROUP
  | USER_NOT_IN_ROLE
  | USER_NOT_IN_GROUP
  | METHOD_NOT_ALLOWED
  | SESSION_NOT_FOUND

datatype InfoMessages = OVERAGE_OCCURRED

text \<open>The calls a handler makes on its collaborators.\<close>

datatype ext_call =
    AcquireTokenByCode
  | AcquireTokenSilent
  | GetAuthCodeUrl
  | ValidateIdToken
  | VerifyAccessTokenSignature
  | CallApiEndpoint
  | HandlePagination

datatype event =
    LogError ErrorMessages
  | LogWarning InfoMessages
  | Called ext_call

text \<open>
  The answer of a handler: \<open>res.redirect(target)\<close>, \<open>next()\<close>, \<open>next(error)\<close>, or an
  exception that leaves the handler (the promise of the \<open>async\<close> handler is rejected and
  nothing is sent).
\<close>

datatype Response =
    Redirect jsval
  | Next
  | NextError js_error
  | Throw js_error

section \<open>JSON text\<close>

text \<open>
  \<open>JSON.stringify\<close> and \<open>JSON.parse\<close> as ECMAScript defines them, on UTF-8 bytes. The code
  calls \<open>JSON.stringify\<close> only on an object literal whose properties hold strings (or
  \<open>undefined\<close>), and that is what \<open>JSON_stringify\<close> takes: the properties in the order of
  the literal. \<open>JSON_parse\<close> reads any JSON text.
\<close>

definition dquote :: char where
  "dquote = CHR 0x22"

definition backslash :: char where
  "backslash = CHR 0x5C"

definition hex_char :: "nat \<Rightarrow> char" where
  "hex_char n = ''0123456789abcdef'' ! (n mod 16)"

definition hex_digit :: "char \<Rightarrow> nat option" where
  "hex_digit c =
     (let n = (of_char c :: nat) in
      if 48 \<le> n \<and> n \<le> 57 then Some (n - 48)
      else if 97 \<le> n \<and> n \<le> 102 then Some (n - 87)
      else if 65 \<le> n \<and> n \<le> 70 then Some (n - 55)
      else None)"

definition hex4 :: "char \<Rightarrow> char \<Rightarrow> char \<Rightarrow> char \<Rightarrow> nat option" where
  "hex4 a b c d =
     (case (hex_digit a, hex_digit b, hex_digit c, hex_digit d) of
        (Some x, Some y, Some z, Some w) \<Rightarrow> Some (x * 4096 + y * 256 + z * 16 + w)
      | _ \<Rightarrow> None)"

text \<open>
  \<open>QuoteJSONString\<close>: the two-character escapes, \<open>\u00XX\<close> in lower case for the other
  characters below U+0020, and every other character as it is.
\<close>

definition quote_char :: "char \<Rightarrow> string" where
  "quote_char c =
     (if c = CHR 0x08 then [backslash, CHR ''b'']
      else if c = CHR 0x09 then [backslash, CHR ''t'']
      else if c = CHR 0x0A then [backslash, CHR ''n'']
      else if c = CHR 0x0C then [backslash, CHR ''f'']
      else if c = CHR 0x0D then [backslash, CHR ''r'']
      else if c = dquote then [backslash, dquote]
      else if c = backslash then [backslash, backslash]
      else if (of_char c :: nat) < 32 then
        [backslash, CHR ''u'', CHR ''0'', CHR ''0'',
         hex_char (of_char c div 16), hex_char (of_char c mod 16)]
      else [c])"

definition QuoteJSONString :: "string \<Rightarrow> string" where
  "QuoteJSONString s = dquote # concat (map quote_char s) @ [dquote]"

text \<open>
  \<open>SerializeJSONObject\<close> without a gap: the members \<open>"key":"value"\<close> of the properties
  whose value is not \<open>undefined\<close>, joined by commas, in braces.
\<close>

fun SerializeJSONProperties :: "(string \<times> string option) list \<Rightarrow> string list" where
  "SerializeJSONProperties [] = []"
| "SerializeJSONProperties ((k, None) # ps) = SerializeJSONProperties ps"
| "SerializeJSONProperties ((k, Some v) # ps) =
     (QuoteJSONString k @ '':'' @ QuoteJSONString v) # SerializeJSONProperties ps"

fun join_comma :: "string list \<Rightarrow> string" where
  "join_comma [] = []"
| "join_comma [x] = x"
| "join_comma (x # y # ys) = x @ '','' @ join_comma (y # ys)"

definition JSON_stringify :: "(string \<times> string option) list \<Rightarrow> string" where
  "JSON_stringify props = ''{'' @ join_comma (SerializeJSONProperties props) @ ''}''"

subsection \<open>Tokens\<close>

datatype token =
    TLBrace | TRBrace | TLBracket | TRBracket | TColon | TComma
  | TString string | TNumber string | TTrue | TFalse | TNull

text \<open>
  The bytes of a code point. A \<open>\uXXXX\<close> escape of a surrogate that has no partner gets the
  three bytes the same scheme gives it.
\<close>

definition utf8 :: "nat \<Rightarrow> string" where
  "utf8 n =
     (if n < 0x80 then [char_of n]
      else if n < 0x800 then [char_of (0xC0 + n div 64), char_of (0x80 + n mod 64)]
      else if n < 0x10000 then
        [char_of (0xE0 + n div 4096), char_of (0x80 + n div 64 mod 64), char_of (0x80 + n mod 64)]
      else
        [char_of (0xF0 + n div 262144), char_of (0x80 + n div 4096 mod 64),
         char_of (0x80 + n div 64 mod 64), char_of (0x80 + n mod 64)])"

definition unescape :: "char \<Rightarrow> char option" where
  "unescape e =
     (if e = dquote then Some dquote
      else if e = backslash then Some backslash
      else if e = CHR ''/'' then Some CHR ''/''
      else if e = CHR ''b'' then Some (CHR 0x08)
      else if e = CHR ''f'' then Some (CHR 0x0C)
      else if e = CHR ''n'' then Some (CHR 0x0A)
      else if e = CHR ''r'' then Some (CHR 0x0D)
      else if e = CHR ''t'' then Some (CHR 0x09)
      else None)"

text \<open>
  A high surrogate escape directly followed by a low surrogate escape is one code point.
\<close>

definition low_surrogate_escape :: "string \<Rightarrow> nat option" where
  "low_surrogate_escape cs =
     (case cs of
        b # u # e # f # g # h # _ \<Rightarrow>
          if b = backslash \<and> u = CHR ''u'' then
            (case hex4 e f g h of
               Some m \<Rightarrow> if 0xDC00 \<le> m \<and> m < 0xE000 then Some m else None
             | None \<Rightarrow> None)
          else None
      | _ \<Rightarrow> None)"

definition consChars :: "string \<Rightarrow> (string \<times> string) option \<Rightarrow> (string \<times> string) option" where
  "consChars pre r = (case r of None \<Rightarrow> None | Some (s, rest) \<Rightarrow> Some (pre @ s, rest))"

text \<open>An escape sequence, read after its backslash: the bytes it stands for and what follows it.\<close>

definition lex_escape :: "string \<Rightarrow> (string \<times> string) option" where
  "lex_escape cs =
     (case cs of
        [] \<Rightarrow> None
      | e # cs' \<Rightarrow>
          if e = CHR ''u'' then
            (case cs' of
               h1 # h2 # h3 # h4 # cs'' \<Rightarrow>
                 (case hex4 h1 h2 h3 h4 of
                    None \<Rightarrow> None
                  | Some n \<Rightarrow>
                      (case (if 0xD800 \<le> n \<and> n < 0xDC00 then low_surrogate_escape cs''
                             else None) of
                         Some m \<Rightarrow>
                           Some (utf8 (0x10000 + (n - 0xD800) * 0x400 + (m - 0xDC00)),
                                 drop 6 cs'')
                       | None \<Rightarrow> Some (utf8 n, cs'')))
             | _ \<Rightarrow> None)
          else
            (case unescape e of
               None \<Rightarrow> None
             | Some ch \<Rightarrow> Some ([ch], cs')))"

lemma lex_escape_shorter:
  "lex_escape cs = Some (pre, rest) \<Longrightarrow> length rest < length cs"
  unfolding lex_escape_def
  by (cases cs) (auto split: if_splits list.splits option.splits)

text \<open>
  A string token, read after its opening quote: its value and what follows the closing
  quote. A character below U+0020 may not stand in it unescaped.
\<close>

function lex_string :: "string \<Rightarrow> (string \<times> string) option" where
  "lex_string [] = None"
| "lex_string (c # cs) =
     (if c = dquote then Some ([], cs)
      else if c = backslash then
        (case lex_escape cs of
           None \<Rightarrow> None
         | Some (pre, cs') \<Rightarrow> consChars pre (lex_string cs'))
      else if (of_char c :: nat) < 32 then None
      else consChars [c] (lex_string cs))"
  by pat_completeness auto
termination
  by (relation "measure length") (auto dest: lex_escape_shorter)

definition is_digit :: "char \<Rightarrow> bool" where
  "is_digit c = (48 \<le> (of_char c :: nat) \<and> (of_char c :: nat) \<le> 57)"

text \<open>The longest prefix that is a JSON number, and what follows it.\<close>

definition lex_int :: "string \<Rightarrow> (string \<times> string) option" where
  "lex_int cs =
     (case cs of
        [] \<Rightarrow> None
      | d # ds \<Rightarrow>
          if d = CHR ''0'' then Some ([d], ds)
          else if is_digit d then Some (d # takeWhile is_digit ds, dropWhile is_digit ds)
          else None)"

definition lex_frac :: "string \<Rightarrow> (string \<times> string) option" where
  "lex_frac cs =
     (case cs of
        [] \<Rightarrow> Some ([], cs)
      | p # ds \<Rightarrow>
          if p = CHR ''.'' then
            (if takeWhile is_digit ds = [] then None
             else Some (p # takeWhile is_digit ds, dropWhile is_digit ds))
          else Some ([], cs))"

definition lex_exp :: "string \<Rightarrow> (string \<times> string) option" where
  "lex_exp cs =
     (case cs of
        [] \<Rightarrow> Some ([], cs)
      | e # ds \<Rightarrow>
          if e = CHR ''e'' \<or> e = CHR ''E'' then
            (case ds of
               [] \<Rightarrow> None
             | s # ds' \<Rightarrow>
                 if s = CHR ''+'' \<or> s = CHR ''-'' then
                   (if takeWhile is_digit ds' = [] then None
                    else Some (e # s # takeWhile is_digit ds', dropWhile is_digit ds'))
                 else
                   (if takeWhile is_digit ds = [] then None
                    else Some (e # takeWhile is_digit ds, dropWhile is_digit ds)))
          else Some ([], cs))"

definition lex_number :: "string \<Rightarrow> (string \<times> string) option" where
  "lex_number cs =
     (let (sign, cs1) = (case cs of
                           [] \<Rightarrow> ([], cs)
                         | m # ms \<Rightarrow> if m = CHR ''-'' then ([m], ms) else ([], cs))
      in case lex_int cs1 of
           None \<Rightarrow> None
         | Some (i, cs2) \<Rightarrow>
             (case lex_frac cs2 of
                None \<Rightarrow> None
              | Some (f, cs3) \<Rightarrow>
                  (case lex_exp cs3 of
                     None \<Rightarrow> None
                   | Some (x, cs4) \<Rightarrow> Some (sign @ i @ f @ x, cs4))))"

definition is_whitespace :: "char \<Rightarrow> bool" where
  "is_whitespace c = (c = CHR 0x20 \<or> c = CHR 0x09 \<or> c = CHR 0x0A \<or> c = CHR 0x0D)"

definition consToken :: "token \<Rightarrow> token list option \<Rightarrow> token list option" where
  "consToken t r = (case r of None \<Rightarrow> None | Some ts \<Rightarrow> Some (t # ts))"

lemma consChars_rest:
  "consChars pre r = Some (s, rest) \<Longrightarrow> \<exists>s'. r = Some (s', rest)"
  by (auto simp: consChars_def split: option.splits)

lemma lex_string_shorter:
  "lex_string cs = Some (s, rest) \<Longrightarrow> length rest < length cs"
proof (induction cs arbitrary: s rest rule: lex_string.induct)
  case 1
  then show ?case by simp
next
  case (2 c cs)
  show ?case
  proof (cases "c = dquote")
    case True
    with "2.prems" show ?thesis by simp
  next
    case nq: False
    show ?thesis
    proof (cases "c = backslash")
      case False
      with nq "2.prems" obtain s' where "lex_string cs = Some (s', rest)"
        by (auto split: if_splits dest: consChars_rest)
      with "2.IH"(2) [OF nq False] "2.prems" nq False show ?thesis
        by (auto split: if_splits)
    next
      case bs: True
      with nq "2.prems" obtain pre cs' s' where
        e: "lex_escape cs = Some (pre, cs')" and r: "lex_string cs' = Some (s', rest)"
        by (auto split: option.splits dest: consChars_rest)
      from "2.IH"(1) [OF nq bs e refl r] lex_escape_shorter [OF e] show ?thesis
        by simp
    qed
  qed
qed

lemma lex_int_shorter:
  "lex_int cs = Some (i, rest) \<Longrightarrow> length rest < length cs"
  unfolding lex_int_def
  by (cases cs) (auto split: if_splits simp: less_Suc_eq_le length_dropWhile_le)

lemma lex_frac_shorter:
  "lex_frac cs = Some (f, rest) \<Longrightarrow> length rest \<le> length cs"
  unfolding lex_frac_def
  by (cases cs) (auto split: if_splits simp: le_SucI length_dropWhile_le)

lemma lex_exp_shorter:
  "lex_exp cs = Some (x, rest) \<Longrightarrow> length rest \<le> length cs"
  unfolding lex_exp_def
  by (cases cs) (auto split: if_splits list.splits simp: le_SucI length_dropWhile_le)

lemma lex_number_shorter:
  assumes "lex_number cs = Some (n, rest)"
  shows "length rest < length cs"
proof -
  obtain sign cs1 where sg: "(case cs of
                           [] \<Rightarrow> ([], cs)
                         | m # ms \<Rightarrow> if m = CHR ''-'' then ([m], ms) else ([], cs)) = (sign, cs1)"
    by (cases "(case cs of [] \<Rightarrow> ([], cs)
                  | m # ms \<Rightarrow> if m = CHR ''-'' then ([m], ms) else ([], cs))") auto
  then have l1: "length cs1 \<le> length cs"
    by (cases cs) (auto split: if_splits)
  from assms sg obtain i cs2 f cs3 x where
    a: "lex_int cs1 = Some (i, cs2)" and b: "lex_frac cs2 = Some (f, cs3)"
    and c: "lex_exp cs3 = Some (x, rest)"
    by (auto simp: lex_number_def split: option.splits)
  from lex_int_shorter [OF a] lex_frac_shorter [OF b] lex_exp_shorter [OF c] l1
  show ?thesis by simp
qed

text \<open>The tokens of a JSON text; \<open>None\<close> where \<open>JSON.parse\<close> meets a character no token starts with.\<close>

function lex :: "string \<Rightarrow> token list option" where
  "lex [] = Some []"
| "lex (c # cs) =
     (if is_whitespace c then lex cs
      else if c = CHR ''{'' then consToken TLBrace (lex cs)
      else if c = CHR ''}'' then consToken TRBrace (lex cs)
      else if c = CHR ''['' then consToken TLBracket (lex cs)
      else if c = CHR '']'' then consToken TRBracket (lex cs)
      else if c = CHR '':'' then consToken TColon (lex cs)
      else if c = CHR '','' then consToken TComma (lex cs)
      else if c = dquote then
        (case lex_string cs of
           None \<Rightarrow> None
         | Some (s, rest) \<Rightarrow> consToken (TString s) (lex rest))
      else if c = CHR ''-'' \<or> is_digit c then
        (case lex_number (c # cs) of
           None \<Rightarrow> None
         | Some (n, rest) \<Rightarrow> consToken (TNumber n) (lex rest))
      else if take 4 (c # cs) = ''true'' then consToken TTrue (lex (drop 3 cs))
      else if take 5 (c # cs) = ''false'' then consToken TFalse (lex (drop 4 cs))
      else if take 4 (c # cs) = ''null'' then consToken TNull (lex (drop 3 cs))
      else None)"
  by pat_completeness auto
termination
proof (relation "measure length", goal_cases)
  case (9 c cs x2 x y)
  then show ?case
    using lex_string_shorter [of cs x y] by simp
next
  case (10 c cs x2 x y)
  then show ?case
    using lex_number_shorter [of "c # cs" x y] by simp
qed auto

subsection \<open>The grammar\<close>

text \<open>
  The value of a token list, by one pass with a stack of the arrays and objects that are
  still open. A frame holds the elements or members read so far, \<open>FKey\<close> also the key
  whose value is being read; the mode says what may come next.
\<close>

datatype frame =
    FArr "json list"
  | FObj "(string \<times> json) list"
  | FKey "(string \<times> json) list" string

datatype mode =
    MValue
  | MFirstElement
  | MFirstKey
  | MKey
  | MColon string
  | MAfter
  | MDone json

definition attach :: "json \<Rightarrow> frame list \<Rightarrow> (frame list \<times> mode) option" where
  "attach v st =
     (case st of
        [] \<Rightarrow> Some ([], MDone v)
      | FArr xs # st' \<Rightarrow> Some (FArr (xs @ [v]) # st', MAfter)
      | FKey kvs k # st' \<Rightarrow> Some (FObj (kvs @ [(k, v)]) # st', MAfter)
      | FObj kvs # st' \<Rightarrow> None)"

definition start_value :: "frame list \<Rightarrow> token \<Rightarrow> (frame list \<times> mode) option" where
  "start_value st t =
     (case t of
        TString s \<Rightarrow> attach (JString s) st
      | TNumber n \<Rightarrow> attach (JNumber n) st
      | TTrue \<Rightarrow> attach (JBool True) st
      | TFalse \<Rightarrow> attach (JBool False) st
      | TNull \<Rightarrow> attach JNull st
      | TLBracket \<Rightarrow> Some (FArr [] # st, MFirstElement)
      | TLBrace \<Rightarrow> Some (FObj [] # st, MFirstKey)
      | _ \<Rightarrow> None)"

definition close_frame :: "frame list \<Rightarrow> token \<Rightarrow> (frame list \<times> mode) option" where
  "close_frame st t =
     (case st of
        FArr xs # st' \<Rightarrow> if t = TRBracket then attach (JArray xs) st' else None
      | FObj kvs # st' \<Rightarrow> if t = TRBrace then attach (JObject kvs) st' else None
      | _ \<Rightarrow> None)"

definition step :: "frame list \<times> mode \<Rightarrow> token \<Rightarrow> (frame list \<times> mode) option" where
  "step sm t =
     (case sm of (st, m) \<Rightarrow>
        (case m of
           MValue \<Rightarrow> start_value st t
         | MFirstElement \<Rightarrow> if t = TRBracket then close_frame st t else start_value st t
         | MFirstKey \<Rightarrow>
             (case t of TString k \<Rightarrow> Some (st, MColon k) | _ \<Rightarrow> close_frame st t)
         | MKey \<Rightarrow> (case t of TString k \<Rightarrow> Some (st, MColon k) | _ \<Rightarrow> None)
         | MColon k \<Rightarrow>
             (case (t, st) of
                (TColon, FObj kvs # st') \<Rightarrow> Some (FKey kvs k # st', MValue)
              | _ \<Rightarrow> None)
         | MAfter \<Rightarrow>
             (if t = TComma then
                (case st of
                   FArr xs # st' \<Rightarrow> Some (st, MValue)
                 | FObj kvs # st' \<Rightarrow> Some (st, MKey)
                 | _ \<Rightarrow> None)
              else close_frame st t)
         | MDone v \<Rightarrow> None))"

primrec run :: "frame list \<times> mode \<Rightarrow> token list \<Rightarrow> json option" where
  "run sm [] = (case snd sm of MDone v \<Rightarrow> Some v | _ \<Rightarrow> None)"
| "run sm (t # ts) = (case step sm t of None \<Rightarrow> None | Some sm' \<Rightarrow> run sm' ts)"

text \<open>\<open>JSON.parse(text)\<close>: the value, or the \<open>SyntaxError\<close> it throws.\<close>

definition JSON_parse :: "string \<Rightarrow> js_error + json" where
  "JSON_parse text =
     (case lex text of
        None \<Rightarrow> Inl SyntaxError
      | Some ts \<Rightarrow>
          (case run ([], MValue) ts of
             None \<Rightarrow> Inl SyntaxError
           | Some v \<Rightarrow> Inr v))"

subsection \<open>Parsing what was stringified\<close>

lemma hex_digit_hex_char:
  assumes "n < 16"
  shows "hex_digit (hex_char n) = Some n"
proof -
  have "list_all (\<lambda>k. hex_digit (hex_char k) = Some k) [0..<16]"
    by code_simp
  with assms show ?thesis
    by (simp add: list_all_iff)
qed

lemma lex_escape_control:
  assumes "(of_char c :: nat) < 32"
  shows "lex_escape (CHR ''u'' # CHR ''0'' # CHR ''0'' #
           hex_char (of_char c div 16) # hex_char (of_char c mod 16) # tail) = Some ([c], tail)"
proof -
  have d: "hex_digit (hex_char (of_char c div 16)) = Some (of_char c div 16)"
    using assms by (intro hex_digit_hex_char) simp
  have m: "hex_digit (hex_char (of_char c mod 16)) = Some (of_char c mod 16)"
    by (intro hex_digit_hex_char) simp
  have z: "hex_digit CHR ''0'' = Some 0"
    by (simp add: hex_digit_def)
  have h: "hex4 CHR ''0'' CHR ''0'' (hex_char (of_char c div 16)) (hex_char (of_char c mod 16))
             = Some (of_char c)"
    by (simp add: hex4_def d m z)
  show ?thesis
    using assms by (simp add: lex_escape_def h utf8_def)
qed

lemma lex_string_quote_char:
  "lex_string (quote_char c @ tail) = consChars [c] (lex_string tail)"
proof -
  consider (b) "c = CHR 0x08" | (t) "c = CHR 0x09" | (n) "c = CHR 0x0A" | (f) "c = CHR 0x0C"
    | (r) "c = CHR 0x0D" | (q) "c = dquote" | (s) "c = backslash"
    | (ctl) "c \<noteq> CHR 0x08" "c \<noteq> CHR 0x09" "c \<noteq> CHR 0x0A" "c \<noteq> CHR 0x0C" "c \<noteq> CHR 0x0D"
        "c \<noteq> dquote" "c \<noteq> backslash" "(of_char c :: nat) < 32"
    | (plain) "c \<noteq> dquote" "c \<noteq> backslash" "\<not> (of_char c :: nat) < 32"
        "c \<noteq> CHR 0x08" "c \<noteq> CHR 0x09" "c \<noteq> CHR 0x0A" "c \<noteq> CHR 0x0C" "c \<noteq> CHR 0x0D"
    by blast
  then show ?thesis
  proof cases
    case ctl
    then show ?thesis
      by (simp add: quote_char_def lex_escape_control) (simp add: dquote_def backslash_def)
  next
    case plain
    then show ?thesis
      by (simp add: quote_char_def)
  qed (simp_all add: quote_char_def lex_escape_def unescape_def dquote_def backslash_def)
qed

lemma lex_string_quoted:
  "lex_string (concat (map quote_char s) @ dquote # rest) = Some (s, rest)"
  by (induction s) (simp_all add: lex_string_quote_char consChars_def)

lemma lex_QuoteJSONString:
  "lex (QuoteJSONString s @ rest) = consToken (TString s) (lex rest)"
  by (simp add: QuoteJSONString_def lex_string_quoted is_whitespace_def dquote_def [symmetric])
     (simp add: dquote_def)

fun definedProperties :: "(string \<times> string option) list \<Rightarrow> (string \<times> string) list" where
  "definedProperties [] = []"
| "definedProperties ((k, None) # ps) = definedProperties ps"
| "definedProperties ((k, Some v) # ps) = (k, v) # definedProperties ps"

fun member_tokens :: "(string \<times> string) list \<Rightarrow> token list" where
  "member_tokens [] = []"
| "member_tokens [(k, v)] = [TString k, TColon, TString v]"
| "member_tokens ((k, v) # kv # kvs) =
     [TString k, TColon, TString v, TComma] @ member_tokens (kv # kvs)"

lemma SerializeJSONProperties_defined:
  "SerializeJSONProperties ps =
     map (\<lambda>(k, v). QuoteJSONString k @ '':'' @ QuoteJSONString v) (definedProperties ps)"
  by (induction ps rule: definedProperties.induct) simp_all

lemma lex_punct:
  "lex (CHR '':'' # cs) = consToken TColon (lex cs)"
  "lex (CHR '','' # cs) = consToken TComma (lex cs)"
  "lex (CHR ''{'' # cs) = consToken TLBrace (lex cs)"
  "lex (CHR ''}'' # cs) = consToken TRBrace (lex cs)"
  by (simp_all add: is_whitespace_def)

declare lex.simps(2) [simp del]

lemma lex_members:
  "lex (join_comma (map (\<lambda>(k, v). QuoteJSONString k @ CHR '':'' # QuoteJSONString v) kvs) @ rest) =
     (case lex rest of None \<Rightarrow> None | Some ts \<Rightarrow> Some (member_tokens kvs @ ts))"
proof (induction kvs rule: member_tokens.induct)
  case 1
  then show ?case by (simp split: option.splits)
next
  case (2 k v)
  then show ?case
    by (simp add: lex_QuoteJSONString lex_punct consToken_def split: option.splits)
next
  case (3 k v kv kvs)
  then show ?case
    by (simp add: lex_QuoteJSONString lex_punct consToken_def split: option.splits prod.splits)
qed

lemma run_members:
  assumes "m = MFirstKey \<or> m = MKey" "kvs \<noteq> []"
  shows "run (FObj done # st, m) (member_tokens kvs @ TRBrace # ts) =
     (case attach (JObject (done @ map (\<lambda>(k, v). (k, JString v)) kvs)) st of
        None \<Rightarrow> None
      | Some sm \<Rightarrow> run sm ts)"
  using assms
proof (induction kvs arbitrary: m "done" rule: member_tokens.induct)
  case 1
  then show ?case by simp
next
  case (2 k v)
  then show ?case
    by (auto simp: step_def start_value_def attach_def close_frame_def split: option.splits)
next
  case (3 k v kv kvs)
  have "run (FObj done # st, m) (member_tokens ((k, v) # kv # kvs) @ TRBrace # ts) =
        run (FObj (done @ [(k, JString v)]) # st, MKey) (member_tokens (kv # kvs) @ TRBrace # ts)"
    using "3.prems"(1) by (auto simp: step_def start_value_def attach_def)
  then show ?case
    using "3.IH" [of MKey "done @ [(k, JString v)]"] by simp
qed

lemma JSON_parse_stringify:
  "JSON_parse (JSON_stringify props) =
     Inr (JObject (map (\<lambda>(k, v). (k, JString v)) (definedProperties props)))"
proof -
  let ?kvs = "definedProperties props"
  have l: "lex (JSON_stringify props) = Some (TLBrace # member_tokens ?kvs @ [TRBrace])"
    by (simp add: JSON_stringify_def SerializeJSONProperties_defined lex_punct lex_members
        consToken_def)
  have s: "step ([], MValue) TLBrace = Some ([FObj []], MFirstKey)"
    by (simp add: step_def start_value_def)
  show ?thesis
  proof (cases "?kvs = []")
    case True
    then show ?thesis
      by (simp add: JSON_parse_def l s) (simp add: step_def close_frame_def attach_def)
  next
    case False
    then show ?thesis
      using run_members [of MFirstKey ?kvs "[]" "[]" "[]"]
      by (simp add: JSON_parse_def l s attach_def)
  qed
qed

section \<open>Base64\<close>

text \<open>
  Base64 as \<open>Buffer\<close> of Node.js writes and reads it. Writing pads with \<open>=\<close>. Reading stops
  at the first \<open>=\<close>, skips every character outside the alphabet, takes \<open>-\<close> and \<open>_\<close> for
  \<open>+\<close> and \<open>/\<close>, and drops bits that do not fill a byte. The text is UTF-8 on both sides, so
  \<open>Buffer.from(s, "utf8")\<close> and \<open>toString("utf8")\<close> do nothing to the bytes; that
  \<open>toString\<close> puts U+FFFD where bytes are not UTF-8 is left out, which moves no quote and no
  bracket of a JSON text.
\<close>

definition base64_alphabet :: string where
  "base64_alphabet = ''ABCDEFGHIJKLMNOPQRSTUVWXYZabcdefghijklmnopqrstuvwxyz0123456789+/''"

definition base64_char :: "nat \<Rightarrow> char" where
  "base64_char n = base64_alphabet ! n"

fun base64_encode :: "string \<Rightarrow> string" where
  "base64_encode [] = []"
| "base64_encode [a] =
     [base64_char (of_char a div 4), base64_char (of_char a mod 4 * 16), CHR ''='', CHR ''='']"
| "base64_encode [a, b] =
     [base64_char (of_char a div 4),
      base64_char (of_char a mod 4 * 16 + of_char b div 16),
      base64_char (of_char b mod 16 * 4), CHR ''='']"
| "base64_encode (a # b # c # rest) =
     [base64_char (of_char a div 4),
      base64_char (of_char a mod 4 * 16 + of_char b div 16),
      base64_char (of_char b mod 16 * 4 + of_char c div 64),
      base64_char (of_char c mod 64)] @ base64_encode rest"

fun index_of :: "'a list \<Rightarrow> 'a \<Rightarrow> nat option" where
  "index_of [] x = None"
| "index_of (y # ys) x = (if x = y then Some 0 else map_option Suc (index_of ys x))"

definition unbase64 :: "char \<Rightarrow> nat option" where
  "unbase64 c =
     (if c = CHR ''-'' then Some 62
      else if c = CHR ''_'' then Some 63
      else index_of base64_alphabet c)"

fun decode_sextets :: "nat list \<Rightarrow> string" where
  "decode_sextets (s1 # s2 # s3 # s4 # rest) =
     [char_of (s1 * 4 + s2 div 16), char_of (s2 mod 16 * 16 + s3 div 4),
      char_of (s3 mod 4 * 64 + s4)] @ decode_sextets rest"
| "decode_sextets [s1, s2, s3] =
     [char_of (s1 * 4 + s2 div 16), char_of (s2 mod 16 * 16 + s3 div 4)]"
| "decode_sextets [s1, s2] = [char_of (s1 * 4 + s2 div 16)]"
| "decode_sextets _ = []"

definition sextets :: "string \<Rightarrow> nat list" where
  "sextets s = List.map_filter unbase64 (takeWhile (\<lambda>c. c \<noteq> CHR ''='') s)"

definition base64_decode :: "string \<Rightarrow> string" where
  "base64_decode s = decode_sextets (sextets s)"

lemma index_of_nth:
  "distinct xs \<Longrightarrow> n < length xs \<Longrightarrow> index_of xs (xs ! n) = Some n"
proof (induction xs arbitrary: n)
  case Nil
  then show ?case by simp
next
  case (Cons y ys)
  show ?case
  proof (cases n)
    case 0
    then show ?thesis by simp
  next
    case (Suc m)
    with Cons.prems have "ys ! m \<noteq> y" "index_of ys (ys ! m) = Some m"
      using Cons.IH [of m] by auto
    with Suc show ?thesis by simp
  qed
qed

lemma distinct_base64_alphabet: "distinct base64_alphabet"
  by (simp add: base64_alphabet_def)

lemma length_base64_alphabet: "length base64_alphabet = 64"
  by (simp add: base64_alphabet_def)

lemma base64_char_in: "n < 64 \<Longrightarrow> base64_char n \<in> set base64_alphabet"
  by (simp add: base64_char_def length_base64_alphabet)

lemma base64_char_not_pad: "n < 64 \<Longrightarrow> base64_char n \<noteq> CHR ''=''"
  using base64_char_in [of n] by (auto simp: base64_alphabet_def)

lemma unbase64_base64_char: "n < 64 \<Longrightarrow> unbase64 (base64_char n) = Some n"
proof -
  assume n: "n < 64"
  have "base64_char n \<noteq> CHR ''-''" "base64_char n \<noteq> CHR ''_''"
    using base64_char_in [OF n] by (auto simp: base64_alphabet_def)
  then show ?thesis
    using n by (simp add: unbase64_def base64_char_def index_of_nth
        distinct_base64_alphabet length_base64_alphabet)
qed

lemma div_mod_digit:
  fixes a b k :: nat
  assumes "b < k"
  shows "(a * k + b) div k = a" "(a * k + b) mod k = b"
  using assms by simp_all

lemma sextet_bounds:
  fixes x y :: nat
  assumes "x < 256" "y < 256"
  shows "x div 4 < 64" "x mod 4 * 16 + y div 16 < 64" "x mod 16 * 4 + y div 64 < 64"
    "x mod 64 < 64" "x mod 4 * 16 < 64" "x mod 16 * 4 < 64"
proof -
  have m4: "x mod 4 < 4" and m16: "x mod 16 < 16" by simp_all
  have d16: "y div 16 < 16" and d64: "y div 64 < 4"
    using assms by (simp_all add: div_less_iff_less_mult)
  show "x div 4 < 64" using assms by (simp add: div_less_iff_less_mult)
  show "x mod 4 * 16 + y div 16 < 64" using m4 d16 by linarith
  show "x mod 16 * 4 + y div 64 < 64" using m16 d64 by linarith
  show "x mod 64 < 64" by simp
  show "x mod 4 * 16 < 64" using m4 by linarith
  show "x mod 16 * 4 < 64" using m16 by linarith
qed

lemma of_char_less: "(of_char (c :: char) :: nat) < 256"
  by (metis of_char_mod_256 mod_less_divisor zero_less_numeral)

lemma byte_arith:
  fixes x y z :: nat
  assumes "y < 256" "z < 256"
  shows "x div 4 * 4 + (x mod 4 * 16 + y div 16) div 16 = x"
    "(x mod 4 * 16 + y div 16) mod 16 * 16 + (y mod 16 * 4 + z div 64) div 4 = y"
    "(y mod 16 * 4 + z div 64) mod 4 * 64 + z mod 64 = z"
    "x div 4 * 4 + (x mod 4 * 16) div 16 = x"
    "(x mod 4 * 16 + y div 16) mod 16 * 16 + (y mod 16 * 4) div 4 = y"
proof -
  have d16: "y div 16 < 16" and d64: "z div 64 < 4"
    using assms by (simp_all add: div_less_iff_less_mult)
  have a: "(x mod 4 * 16 + y div 16) div 16 = x mod 4"
    and b: "(x mod 4 * 16 + y div 16) mod 16 = y div 16"
    using d16 by (rule div_mod_digit)+
  have c: "(y mod 16 * 4 + z div 64) div 4 = y mod 16"
    and d: "(y mod 16 * 4 + z div 64) mod 4 = z div 64"
    using d64 by (rule div_mod_digit)+
  show "x div 4 * 4 + (x mod 4 * 16 + y div 16) div 16 = x"
    unfolding a by simp
  show "(x mod 4 * 16 + y div 16) mod 16 * 16 + (y mod 16 * 4 + z div 64) div 4 = y"
    unfolding b c by simp
  show "(y mod 16 * 4 + z div 64) mod 4 * 64 + z mod 64 = z"
    unfolding d by simp
  show "x div 4 * 4 + (x mod 4 * 16) div 16 = x"
    by simp
  show "(x mod 4 * 16 + y div 16) mod 16 * 16 + (y mod 16 * 4) div 4 = y"
    unfolding b by simp
qed

lemma sextets_simps:
  "sextets [] = []"
  "sextets (CHR ''='' # cs) = []"
  "n < 64 \<Longrightarrow> sextets (base64_char n # cs) = n # sextets cs"
  by (simp_all add: sextets_def List.map_filter_simps base64_char_not_pad unbase64_base64_char)

lemma decode_sextets_encode: "decode_sextets (sextets (base64_encode bs)) = bs"
proof (induction bs rule: base64_encode.induct)
  case 1
  then show ?case by (simp add: sextets_simps)
next
  case (2 a)
  define x :: nat where "x = of_char a"
  define n1 n2 where "n1 = x div 4" and "n2 = x mod 4 * 16"
  have x: "x < 256" by (simp add: x_def of_char_less)
  have b: "n1 < 64" "n2 < 64"
    unfolding n1_def n2_def using sextet_bounds [OF x x] by blast+
  have "base64_encode [a] = [base64_char n1, base64_char n2, CHR ''='', CHR ''='']"
    by (simp add: n1_def n2_def x_def)
  then have "decode_sextets (sextets (base64_encode [a])) = [char_of (n1 * 4 + n2 div 16)]"
    using b by (simp add: sextets_simps)
  moreover have "n1 * 4 + n2 div 16 = x"
    unfolding n1_def n2_def using byte_arith(4) [OF x x] by blast
  ultimately show ?case
    by (simp add: x_def)
next
  case (3 a b)
  define x y :: nat where "x = of_char a" and "y = of_char b"
  define n1 n2 n3 where "n1 = x div 4" and "n2 = x mod 4 * 16 + y div 16"
    and "n3 = y mod 16 * 4"
  have x: "x < 256" "y < 256" by (simp_all add: x_def y_def of_char_less)
  have b: "n1 < 64" "n2 < 64" "n3 < 64"
    unfolding n1_def n2_def n3_def using sextet_bounds [OF x(1) x(2)] sextet_bounds [OF x(2) x(2)]
    by blast+
  have "base64_encode [a, b] = [base64_char n1, base64_char n2, base64_char n3, CHR ''='']"
    by (simp add: n1_def n2_def n3_def x_def y_def)
  then have "decode_sextets (sextets (base64_encode [a, b]))
      = [char_of (n1 * 4 + n2 div 16), char_of (n2 mod 16 * 16 + n3 div 4)]"
    using b by (simp add: sextets_simps)
  moreover have "n1 * 4 + n2 div 16 = x" "n2 mod 16 * 16 + n3 div 4 = y"
    unfolding n1_def n2_def n3_def using x byte_arith [OF x(2) x(2)] by blast+
  ultimately show ?case
    by (simp add: x_def y_def)
next
  case (4 a b c rest)
  define x y z :: nat where "x = of_char a" and "y = of_char b" and "z = of_char c"
  define n1 n2 n3 n4 where "n1 = x div 4" and "n2 = x mod 4 * 16 + y div 16"
    and "n3 = y mod 16 * 4 + z div 64" and "n4 = z mod 64"
  have x: "x < 256" "y < 256" "z < 256" by (simp_all add: x_def y_def z_def of_char_less)
  have b: "n1 < 64" "n2 < 64" "n3 < 64" "n4 < 64"
    unfolding n1_def n2_def n3_def n4_def
    using sextet_bounds [OF x(1) x(2)] sextet_bounds [OF x(2) x(3)] sextet_bounds [OF x(3) x(3)]
    by blast+
  have "base64_encode (a # b # c # rest)
      = base64_char n1 # base64_char n2 # base64_char n3 # base64_char n4 # base64_encode rest"
    by (simp add: n1_def n2_def n3_def n4_def x_def y_def z_def)
  then have "decode_sextets (sextets (base64_encode (a # b # c # rest)))
      = char_of (n1 * 4 + n2 div 16) # char_of (n2 mod 16 * 16 + n3 div 4)
          # char_of (n3 mod 4 * 64 + n4) # decode_sextets (sextets (base64_encode rest))"
    using b by (simp add: sextets_simps)
  moreover have "n1 * 4 + n2 div 16 = x" "n2 mod 16 * 16 + n3 div 4 = y"
      "n3 mod 4 * 64 + n4 = z"
    unfolding n1_def n2_def n3_def n4_def using x byte_arith [OF x(2) x(3)] by blast+
  ultimately show ?case
    using "4.IH" by (simp add: x_def y_def z_def)
qed

lemma base64_decode_encode: "base64_decode (base64_encode bs) = bs"
  by (simp add: base64_decode_def decode_sextets_encode)

lemma base64_encode_not_empty: "bs \<noteq> [] \<Longrightarrow> base64_encode bs \<noteq> []"
  by (induction bs rule: base64_encode.induct) simp_all

section \<open>The state parameter\<close>

text \<open>
  \<open>AppStages\<close> of \<open>./Constants\<close>, which is not among the sources. The code only writes the
  two members into the state and compares the decoded stage with them, so all that matters
  of their values is that they are two different strings.
\<close>

definition SIGN_IN :: string where
  "SIGN_IN = ''sign_in''"

definition ACQUIRE_TOKEN :: string where
  "ACQUIRE_TOKEN = ''acquire_token''"

text \<open>
  \<open>CryptoProvider\<close> of msal-node, as far as the handlers modelled here use it.
\<close>

record CryptoProvider =
  base64Encode :: "string \<Rightarrow> string"
  base64Decode :: "string \<Rightarrow> string"

text \<open>
  msal-node implements the two with \<open>Buffer\<close>: \<open>Buffer.from(s, "utf8").toString("base64")\<close> and
  \<open>Buffer.from(s, "base64").toString("utf8")\<close>.
\<close>

definition NodeCryptoProvider :: CryptoProvider where
  "NodeCryptoProvider = \<lparr>base64Encode = base64_encode, base64Decode = base64_decode\<rparr>"

text \<open>
  \<open>cryptoProvider.base64Encode(JSON.stringify({stage: ..., path: ..., nonce: ...}))\<close>, the
  expression of \<open>signIn\<close> and of \<open>getToken\<close>; a property whose value is \<open>undefined\<close> is left
  out by \<open>JSON.stringify\<close>.
\<close>

definition encodeState ::
  "CryptoProvider \<Rightarrow> string \<Rightarrow> string option \<Rightarrow> string option \<Rightarrow> string" where
  "encodeState cp stage pth n =
     base64Encode cp (JSON_stringify [(''stage'', Some stage), (''path'', pth), (''nonce'', n)])"

text \<open>\<open>JSON.parse(cryptoProvider.base64Decode(req.query.state))\<close> of \<open>handleRedirect\<close>.\<close>

definition decodeState :: "CryptoProvider \<Rightarrow> string \<Rightarrow> js_error + json" where
  "decodeState cp s = JSON_parse (base64Decode cp s)"

text \<open>
  Reading a property of a parsed value that is not \<open>null\<close>, for the names the code reads
  (\<open>nonce\<close>, \<open>stage\<close>, \<open>path\<close>): an object gives the value of its last member of that name,
  and a string, number, boolean or array has no such property.
\<close>

fun property :: "json \<Rightarrow> string \<Rightarrow> jsval" where
  "property (JObject members) k = map_of (rev members) k"
| "property _ k = None"

text \<open>\<open>v === s\<close> for a parsed value \<open>v\<close> and a session string \<open>s\<close>, either of which may be \<open>undefined\<close>.\<close>

definition strictEquals :: "jsval \<Rightarrow> string option \<Rightarrow> bool" where
  "strictEquals v s = (v = map_option JString s)"

lemma JSON_parse_error: "JSON_parse t = Inl e \<Longrightarrow> e = SyntaxError"
  by (auto simp: JSON_parse_def split: option.splits)

lemma decodeState_encodeState:
  "decodeState NodeCryptoProvider (encodeState NodeCryptoProvider stage pth n) =
     Inr (JObject (map (\<lambda>(k, v). (k, JString v))
            (definedProperties [(''stage'', Some stage), (''path'', pth), (''nonce'', n)])))"
  by (simp only: decodeState_def encodeState_def NodeCryptoProvider_def CryptoProvider.simps
      base64_decode_encode JSON_parse_stringify)

lemma encodeState_not_empty: "encodeState NodeCryptoProvider stage p n \<noteq> []"
  by (simp add: encodeState_def NodeCryptoProvider_def JSON_stringify_def base64_encode_not_empty)

lemma decoded_state_properties:
  "\<exists>st. decodeState NodeCryptoProvider (encodeState NodeCryptoProvider stage p n) = Inr st \<and>
        st \<noteq> JNull \<and> property st ''stage'' = jstr stage \<and>
        property st ''path'' = map_option JString p \<and>
        property st ''nonce'' = map_option JString n"
  by (cases p; cases n) (simp_all add: decodeState_encodeState)

section \<open>The access rule evaluator\<close>

text \<open>
  \<open>AccessConstants.GROUPS\<close> and \<open>AccessConstants.ROLES\<close> of \<open>./Constants\<close>, which is not
  among the sources. The code tests \<open>accessRule.hasOwnProperty(AccessConstants.GROUPS)\<close>
  and then reads \<open>rule.groups\<close>, falls back to \<open>rule.roles\<close>, and writes
  \<open>groups: userGroups\<close> before it reads \<open>idTokenClaims[AccessConstants.GROUPS]\<close>, which
  fixes the two values.
\<close>

definition GROUPS :: string where
  "GROUPS = ''groups''"

definition ROLES :: string where
  "ROLES = ''roles''"

text \<open>
  \<open>AccessRule\<close> of \<open>./Types\<close>: \<open>hasAccess\<close> asks \<open>accessRule.hasOwnProperty("groups")\<close>, so
  a rule has its methods and may lack \<open>groups\<close> or \<open>roles\<close>.
\<close>

record AccessRule =
  methods :: "string list"
  roles :: "string list option"
  groups :: "string list option"

text \<open>
  \<open>checkAccessRule(method, rule, creds, credType)\<close>. The result is the boolean returned, or
  the \<open>TypeError\<close> of calling \<open>filter\<close> on a property the rule does not have, together with
  what was logged.
\<close>

definition checkAccessRule ::
  "string \<Rightarrow> AccessRule \<Rightarrow> string list \<Rightarrow> string \<Rightarrow> (js_error + bool) \<times> event list" where
  "checkAccessRule method rule creds credType =
     (if method \<in> set (methods rule) then
        (if credType = GROUPS then
           (case groups rule of
              None \<Rightarrow> (Inl TypeError, [])
            | Some gs \<Rightarrow>
                if length (filter (\<lambda>elem. elem \<in> set creds) gs) < 1
                then (Inr False, [LogError USER_NOT_IN_GROUP])
                else (Inr True, []))
         else if credType = ROLES then
           (case roles rule of
              None \<Rightarrow> (Inl TypeError, [])
            | Some rs \<Rightarrow>
                if length (filter (\<lambda>elem. elem \<in> set creds) rs) < 1
                then (Inr False, [LogError USER_NOT_IN_ROLE])
                else (Inr True, []))
         else (Inr True, []))
      else (Inr False, [LogError METHOD_NOT_ALLOWED]))"

section \<open>Sessions, requests and collaborators\<close>

text \<open>
  The claims of the identity token that the access guard reads: \<open>groups\<close>, \<open>roles\<close> and
  the two overage markers \<open>_claim_names\<close> and \<open>_claim_sources\<close>, each of which may be absent,
  and the other claims.
\<close>

record IdTokenClaims =
  claim_groups :: "string list option"
  claim_roles :: "string list option"
  claim_names :: "json option"
  claim_sources :: "json option"
  other_claims :: "(string \<times> json) list"

record AccountInfo =
  homeAccountId :: string
  environment :: string
  tenantId :: string
  username :: string
  idTokenClaims :: IdTokenClaims

text \<open>
  \<open>Resource\<close> of \<open>./Types\<close>. A session entry is built as
  \<open>{...appSettings.remoteResources[name], accessToken: null}\<close>, which has no endpoint and no
  scopes when the settings have no such resource, so every property may be absent.
\<close>

record Resource =
  endpoint :: "string option"
  scopes :: "string list option"
  accessToken :: "string option"

record AuthorizationUrlRequest =
  authority :: string
  scopes :: "string list option"
  state :: string
  redirectUri :: string
  prompt :: "string option"
  account :: "AccountInfo option"

record AuthorizationCodeRequest =
  authority :: string
  scopes :: "string list option"
  redirectUri :: string
  code :: "string option"

record SilentFlowRequest =
  account :: "AccountInfo option"
  scopes :: "string list option"

record AuthenticationResult =
  accessToken :: string
  idToken :: string
  account :: "AccountInfo option"

record AuthCodeParams =
  authority :: string
  scopes :: "string list option"
  state :: string
  redirect :: string
  prompt :: "string option"
  account :: "AccountInfo option"

text \<open>
  The session of express-session, which the handlers read as \<open>req.session\<close>. Every property
  but the flag may be absent; an absent \<open>isAuthenticated\<close> is falsy and is \<open>False\<close> here.
\<close>

record Session =
  isAuthenticated :: bool
  nonce :: "string option"
  account :: "AccountInfo option"
  authCodeRequest :: "AuthorizationUrlRequest option"
  tokenRequest :: "AuthorizationCodeRequest option"
  remoteResources :: "(string \<times> Resource) list option"

text \<open>
  What the handlers read of the request. \<open>query_state\<close> and \<open>query_code\<close> are
  \<open>req.query.state\<close> and \<open>req.query.code\<close>, each a string or absent (the code casts them
  to \<open>string\<close>); \<open>host\<close> is \<open>req.get("host")\<close>, \<open>authorization\<close> is
  \<open>req.headers.authorization\<close>, \<open>req_method\<close> is \<open>req.method\<close> and \<open>req_path\<close> is \<open>req.path\<close>.
\<close>

text \<open>
  An instance of the class \<open>UrlUtils\<close>: its constructor stores the optional \<open>baseUrl\<close>.
\<close>

record UrlUtils =
  baseUrl :: "string option"

record Request =
  query_state :: "string option"
  query_code :: "string option"
  originalUrl :: string
  req_method :: string
  protocol :: string
  host :: "string option"
  authorization :: "string option"
  baseUrl :: string
  req_path :: string

record AuthRoutes =
  redirect :: string
  error :: string
  unauthorized :: string

text \<open>
  \<open>AppSettings\<close> of \<open>./Types\<close>, as far as the handlers read it. The two tables of resources
  are the lists of their properties in the order \<open>Object.keys\<close> gives; \<open>getToken\<close> indexes
  \<open>appSettings.remoteResources\<close>, so the settings of an application that uses it have one.
\<close>

record AppSettings =
  authRoutes :: AuthRoutes
  remoteResources :: "(string \<times> Resource) list"
  ownedResources :: "(string \<times> Resource) list"

text \<open>
  The collaborators. A call returns its result or the error it throws (the promise it
  returns is rejected with); the handlers call each at most once per request.
\<close>

record MsalClient =
  getAuthCodeUrl :: "AuthorizationUrlRequest \<Rightarrow> js_error + string"
  acquireTokenByCode :: "AuthorizationCodeRequest \<Rightarrow> js_error + AuthenticationResult"
  acquireTokenSilent :: "SilentFlowRequest \<Rightarrow> js_error + AuthenticationResult"

record TokenValidator =
  validateIdToken :: "string \<Rightarrow> js_error + bool"
  verifyAccessTokenSignature :: "string option \<Rightarrow> string \<Rightarrow> js_error + bool"

record IUri =
  Protocol :: string
  HostNameAndPort :: string

record GraphResponse =
  nextLink :: "string option"
  value_ids :: "string list"

text \<open>
  What the two modules import and call without holding it in a field: \<open>UrlString\<close> of
  msal-common (\<open>new UrlString(uri).getUrlComponents()\<close>, in \<open>UrlUtils\<close>), the two static
  methods of \<open>FetchManager\<close>, and the two Graph constants of \<open>AccessConstants\<close>.
\<close>

record Imports =
  getUrlComponents :: "string \<Rightarrow> js_error + IUri"
  callApiEndpoint :: "string \<Rightarrow> string \<Rightarrow> js_error + GraphResponse"
  handlePagination :: "string \<Rightarrow> string \<Rightarrow> js_error + string list"
  GRAPH_MEMBERS_ENDPOINT :: string
  GRAPH_MEMBER_SCOPES :: string

record AuthProvider =
  appSettings :: AppSettings
  msalConfig_authority :: string
  cryptoProvider :: CryptoProvider
  tokenValidator :: TokenValidator
  msalClient :: MsalClient

text \<open>What a handler did: its answer, the session afterwards, and its events in order.\<close>

record Result =
  response :: Response
  session_after :: Session
  events :: "event list"

section \<open>Utilities of the provider\<close>

text \<open>\<open>undefined\<close> where JavaScript turns it into a string: a property key, a concatenation.\<close>

definition ToString :: "string option \<Rightarrow> string" where
  "ToString v = (case v of None \<Rightarrow> ''undefined'' | Some s \<Rightarrow> s)"

text \<open>
  \<open>{...a, ...b}\<close> for two objects given as the lists of their properties, each in the order
  \<open>Object.keys\<close> lists them: the properties of \<open>a\<close> in place, with the value \<open>b\<close> gives for the
  same key, then the properties only \<open>b\<close> has. (Resources have names, not array indices,
  which JavaScript would list first.)
\<close>

definition objectSpread :: "(string \<times> 'a) list \<Rightarrow> (string \<times> 'a) list \<Rightarrow> (string \<times> 'a) list" where
  "objectSpread a b =
     map (\<lambda>(k, v). (k, case map_of b k of None \<Rightarrow> v | Some w \<Rightarrow> w)) a @
     filter (\<lambda>(k, w). map_of a k = None) b"

text \<open>
  \<open>getResourceNameFromScopes(scopes)\<close>: the key of the first resource whose scopes have the
  same \<open>JSON.stringify\<close> text as \<open>scopes\<close>, which for lists of strings (and for \<open>undefined\<close>
  on both sides) is equality; \<open>undefined\<close> when \<open>findIndex\<close> returns \<open>-1\<close>.
\<close>

definition getResourceNameFromScopes :: "AuthProvider \<Rightarrow> string list option \<Rightarrow> string option" where
  "getResourceNameFromScopes this scps =
     map_option fst
       (find (\<lambda>(name, resource). Resource.scopes resource = scps)
          (objectSpread (AppSettings.remoteResources (appSettings this))
             (ownedResources (appSettings this))))"

text \<open>
  \<open>ensureAbsoluteUrl(req, uri)\<close> of an instance \<open>this\<close> of \<open>UrlUtils\<close>; an empty component is
  falsy. The class declares it without \<open>static\<close>, as a property that the constructor
  initialises with an arrow function: every instance has it, the class itself does not.
\<close>

definition ensureAbsoluteUrl ::
  "Imports \<Rightarrow> UrlUtils \<Rightarrow> Request \<Rightarrow> string \<Rightarrow> js_error + string" where
  "ensureAbsoluteUrl imports this req uri =
     (case getUrlComponents imports uri of
        Inl e \<Rightarrow> Inl e
      | Inr urlComponents \<Rightarrow>
          if Protocol urlComponents = [] then
            (if HostNameAndPort urlComponents = [] then
               Inr (protocol req @ ''://'' @ ToString (host req) @ uri)
             else Inr (protocol req @ ''://'' @ uri))
          else Inr uri)"

text \<open>
  \<open>UrlUtils.ensureAbsoluteUrl\<close>, the property of the class itself, which is what the provider
  reads: \<open>undefined\<close>, since the class has no static member and a function object inherits
  no property of this name. The provider never makes an instance of the class.
\<close>

definition UrlUtils_ensureAbsoluteUrl :: "(Request \<Rightarrow> string \<Rightarrow> js_error + string) option" where
  "UrlUtils_ensureAbsoluteUrl = None"

text \<open>The call \<open>f(a, b)\<close> of a value \<open>f\<close>: a \<open>TypeError\<close> when \<open>f\<close> is \<open>undefined\<close>.\<close>

definition callFunction ::
  "('a \<Rightarrow> 'b \<Rightarrow> js_error + 'c) option \<Rightarrow> 'a \<Rightarrow> 'b \<Rightarrow> js_error + 'c" where
  "callFunction f a b = (case f of None \<Rightarrow> Inl TypeError | Some g \<Rightarrow> g a b)"

text \<open>\<open>StringUtils.isEmpty\<close> of msal-common, on a string.\<close>

definition isEmpty :: "string \<Rightarrow> bool" where
  "isEmpty str = (str = [])"

text \<open>
  \<open>req.session.remoteResources[name].accessToken = token\<close>: a \<open>TypeError\<close> when the session
  has no \<open>remoteResources\<close> or these have no property \<open>name\<close>.
\<close>

definition setAccessToken :: "Session \<Rightarrow> string \<Rightarrow> string \<Rightarrow> js_error + Session" where
  "setAccessToken sess name token =
     (case Session.remoteResources sess of
        None \<Rightarrow> Inl TypeError
      | Some rs \<Rightarrow>
          (case map_of rs name of
             None \<Rightarrow> Inl TypeError
           | Some r \<Rightarrow>
               Inr (sess\<lparr>Session.remoteResources :=
                      Some (map (\<lambda>(k, r). if k = name
                                           then (k, r\<lparr>Resource.accessToken := Some token\<rparr>)
                                           else (k, r)) rs)\<rparr>)))"

section \<open>getAuthCode\<close>

definition getAuthCode :: "AuthProvider \<Rightarrow> Session \<Rightarrow> AuthCodeParams \<Rightarrow> Result" where
  "getAuthCode this sess params =
     (case authCodeRequest sess of
        None \<Rightarrow> \<lparr>response = Throw TypeError, session_after = sess, events = []\<rparr>
      | Some acr \<Rightarrow>
          (let acr' = acr\<lparr>AuthorizationUrlRequest.authority := AuthCodeParams.authority params,
                            AuthorizationUrlRequest.scopes := AuthCodeParams.scopes params,
                            AuthorizationUrlRequest.state := AuthCodeParams.state params,
                            AuthorizationUrlRequest.redirectUri := AuthCodeParams.redirect params,
                            AuthorizationUrlRequest.prompt := AuthCodeParams.prompt params,
                            AuthorizationUrlRequest.account := AuthCodeParams.account params\<rparr>;
               sess1 = sess\<lparr>authCodeRequest := Some acr'\<rparr>
           in case tokenRequest sess1 of
                None \<Rightarrow> \<lparr>response = Throw TypeError, session_after = sess1, events = []\<rparr>
              | Some tr \<Rightarrow>
                  (let tr' = tr\<lparr>AuthorizationCodeRequest.authority := AuthCodeParams.authority params,
                                  AuthorizationCodeRequest.scopes := AuthCodeParams.scopes params,
                                  AuthorizationCodeRequest.redirectUri := AuthCodeParams.redirect params\<rparr>;
                       sess2 = sess1\<lparr>tokenRequest := Some tr'\<rparr>
                   in case getAuthCodeUrl (msalClient this) acr' of
                        Inr url \<Rightarrow>
                          \<lparr>response = Redirect (jstr url), session_after = sess2,
                           events = [Called GetAuthCodeUrl]\<rparr>
                      | Inl e \<Rightarrow>
                          \<lparr>response = NextError e, session_after = sess2,
                           events = [Called GetAuthCodeUrl, LogError AUTH_CODE_NOT_OBTAINED]\<rparr>)))"

section \<open>handleRedirect\<close>

text \<open>The \<open>case AppStages.SIGN_IN\<close> of the \<open>switch\<close>, for the decoded state \<open>st\<close>.\<close>

definition handleRedirect_SIGN_IN :: "AuthProvider \<Rightarrow> Request \<Rightarrow> Session \<Rightarrow> json \<Rightarrow> Result" where
  "handleRedirect_SIGN_IN this req sess st =
     (case tokenRequest sess of
        None \<Rightarrow> \<lparr>response = Throw TypeError, session_after = sess, events = []\<rparr>
      | Some tr \<Rightarrow>
          (let tr' = tr\<lparr>code := query_code req\<rparr>;
               sess1 = sess\<lparr>tokenRequest := Some tr'\<rparr>
           in case acquireTokenByCode (msalClient this) tr' of
                Inl e \<Rightarrow>
                  \<lparr>response = NextError e, session_after = sess1,
                   events = [Called AcquireTokenByCode, LogError TOKEN_ACQUISITION_FAILED]\<rparr>
              | Inr tokenResponse \<Rightarrow>
                  (case validateIdToken (tokenValidator this) (idToken tokenResponse) of
                     Inl e \<Rightarrow>
                       \<lparr>response = NextError e, session_after = sess1,
                        events = [Called AcquireTokenByCode, Called ValidateIdToken,
                                  LogError CANNOT_VALIDATE_TOKEN]\<rparr>
                   | Inr isIdTokenValid \<Rightarrow>
                       if isIdTokenValid then
                         \<lparr>response = Redirect (property st ''path''),
                          session_after =
                            sess1\<lparr>Session.account := AuthenticationResult.account tokenResponse,
                                   isAuthenticated := True\<rparr>,
                          events = [Called AcquireTokenByCode, Called ValidateIdToken]\<rparr>
                       else
                         \<lparr>response = Redirect (jstr (unauthorized (authRoutes (appSettings this)))),
                          session_after = sess1,
                          events = [Called AcquireTokenByCode, Called ValidateIdToken,
                                    LogError INVALID_TOKEN]\<rparr>)))"

text \<open>The \<open>case AppStages.ACQUIRE_TOKEN\<close>.\<close>

definition handleRedirect_ACQUIRE_TOKEN ::
  "AuthProvider \<Rightarrow> Request \<Rightarrow> Session \<Rightarrow> json \<Rightarrow> Result" where
  "handleRedirect_ACQUIRE_TOKEN this req sess st =
     (case tokenRequest sess of
        None \<Rightarrow> \<lparr>response = Throw TypeError, session_after = sess, events = []\<rparr>
      | Some tr \<Rightarrow>
          (let resourceName =
                 ToString (getResourceNameFromScopes this (AuthorizationCodeRequest.scopes tr));
               tr' = tr\<lparr>code := query_code req\<rparr>;
               sess1 = sess\<lparr>tokenRequest := Some tr'\<rparr>
           in case acquireTokenByCode (msalClient this) tr' of
                Inl e \<Rightarrow>
                  \<lparr>response = NextError e, session_after = sess1,
                   events = [Called AcquireTokenByCode, LogError TOKEN_ACQUISITION_FAILED]\<rparr>
              | Inr tokenResponse \<Rightarrow>
                  (case setAccessToken sess1 resourceName
                          (AuthenticationResult.accessToken tokenResponse) of
                     Inl e \<Rightarrow>
                       \<lparr>response = NextError e, session_after = sess1,
                        events = [Called AcquireTokenByCode, LogError TOKEN_ACQUISITION_FAILED]\<rparr>
                   | Inr sess2 \<Rightarrow>
                       \<lparr>response = Redirect (property st ''path''), session_after = sess2,
                        events = [Called AcquireTokenByCode]\<rparr>)))"

text \<open>
  \<open>handleRedirect()\<close>, the handler of the redirect route. A \<open>state\<close> parameter that is absent
  or the empty string is falsy. \<open>JSON.parse\<close> is not inside a \<open>try\<close>, and neither is the read
  of \<open>state.nonce\<close>, which throws a \<open>TypeError\<close> when the text was \<open>null\<close>.
\<close>

definition handleRedirect :: "AuthProvider \<Rightarrow> Request \<Rightarrow> Session \<Rightarrow> Result" where
  "handleRedirect this req sess =
     (let stateNotFound =
            \<lparr>response = Redirect (jstr (unauthorized (authRoutes (appSettings this)))),
             session_after = sess, events = [LogError STATE_NOT_FOUND]\<rparr>
      in case query_state req of
           None \<Rightarrow> stateNotFound
         | Some qs \<Rightarrow>
             if qs = [] then stateNotFound
             else
               (case decodeState (cryptoProvider this) qs of
                  Inl e \<Rightarrow> \<lparr>response = Throw e, session_after = sess, events = []\<rparr>
                | Inr st \<Rightarrow>
                    if st = JNull then
                      \<lparr>response = Throw TypeError, session_after = sess, events = []\<rparr>
                    else if strictEquals (property st ''nonce'') (nonce sess) then
                      (if property st ''stage'' = jstr SIGN_IN then
                         handleRedirect_SIGN_IN this req sess st
                       else if property st ''stage'' = jstr ACQUIRE_TOKEN then
                         handleRedirect_ACQUIRE_TOKEN this req sess st
                       else
                         \<lparr>response = Redirect (jstr (error (authRoutes (appSettings this)))),
                          session_after = sess,
                          events = [LogError CANNOT_DETERMINE_APP_STAGE]\<rparr>)
                    else
                      \<lparr>response = Redirect (jstr (unauthorized (authRoutes (appSettings this)))),
                       session_after = sess, events = [LogError NONCE_MISMATCH]\<rparr>))"

section \<open>getToken\<close>

record TokenRequestOptions =
  resource :: Resource

text \<open>
  The \<open>catch\<close> clause of \<open>getToken\<close>, entered with the events so far and the error caught.
  The state is built first; then the object \<open>params\<close>, whose property \<open>redirect\<close> is the
  call \<open>UrlUtils.ensureAbsoluteUrl(req, this.appSettings.authRoutes.redirect)\<close>. The call
  stands inside the clause, so what it throws leaves the handler.
\<close>

definition getToken_catch ::
  "AuthProvider \<Rightarrow> TokenRequestOptions \<Rightarrow> Request \<Rightarrow> Session \<Rightarrow> event list \<Rightarrow>
   js_error \<Rightarrow> Result" where
  "getToken_catch this options req sess evs err =
     (if err = InteractionRequiredAuthError then
        (let st = encodeState (cryptoProvider this) ACQUIRE_TOKEN (Some (originalUrl req))
                    (nonce sess)
         in case callFunction UrlUtils_ensureAbsoluteUrl req
                   (AuthRoutes.redirect (authRoutes (appSettings this))) of
              Inl e \<Rightarrow> \<lparr>response = Throw e, session_after = sess, events = evs\<rparr>
            | Inr absoluteUrl \<Rightarrow>
                (let r = getAuthCode this sess
                           \<lparr>AuthCodeParams.authority = msalConfig_authority this,
                            AuthCodeParams.scopes = Resource.scopes (resource options),
                            AuthCodeParams.state = st,
                            AuthCodeParams.redirect = absoluteUrl,
                            AuthCodeParams.prompt = None,
                            AuthCodeParams.account = Session.account sess\<rparr>
                 in r\<lparr>events := evs @ events r\<rparr>))
      else \<lparr>response = NextError err, session_after = sess, events = evs\<rparr>)"

text \<open>
  The entry \<open>{...appSettings.remoteResources[name], accessToken: token}\<close> that \<open>getToken\<close>
  leaves in the session for the resource \<open>name\<close>.
\<close>

definition sessionResource :: "AuthProvider \<Rightarrow> string \<Rightarrow> string option \<Rightarrow> Resource" where
  "sessionResource this name token =
     (case map_of (AppSettings.remoteResources (appSettings this)) name of
        None \<Rightarrow> \<lparr>endpoint = None, Resource.scopes = None, Resource.accessToken = token\<rparr>
      | Some r \<Rightarrow> r\<lparr>Resource.accessToken := token\<rparr>)"

text \<open>\<open>getToken(options)\<close>, the middleware.\<close>

definition getToken ::
  "AuthProvider \<Rightarrow> TokenRequestOptions \<Rightarrow> Request \<Rightarrow> Session \<Rightarrow> Result" where
  "getToken this options req sess =
     (let scps = Resource.scopes (resource options);
          resourceName = ToString (getResourceNameFromScopes this scps);
          sess1 = (if Session.remoteResources sess = None
                   then sess\<lparr>Session.remoteResources := Some []\<rparr> else sess);
          sess2 = sess1\<lparr>Session.remoteResources :=
                          Some [(resourceName, sessionResource this resourceName None)]\<rparr>
      in case acquireTokenSilent (msalClient this)
                \<lparr>SilentFlowRequest.account = Session.account sess2,
                 SilentFlowRequest.scopes = scps\<rparr> of
           Inl err \<Rightarrow> getToken_catch this options req sess2 [Called AcquireTokenSilent] err
         | Inr tokenResponse \<Rightarrow>
             if isEmpty (AuthenticationResult.accessToken tokenResponse) then
               getToken_catch this options req sess2
                 [Called AcquireTokenSilent, LogError TOKEN_NOT_FOUND] InteractionRequiredAuthError
             else
               (case setAccessToken sess2 resourceName
                       (AuthenticationResult.accessToken tokenResponse) of
                  Inl err \<Rightarrow>
                    getToken_catch this options req sess2 [Called AcquireTokenSilent] err
                | Inr sess3 \<Rightarrow>
                    \<lparr>response = Next, session_after = sess3,
                     events = [Called AcquireTokenSilent]\<rparr>))"

section \<open>isAuthorized\<close>

text \<open>\<open>s.split(" ")\<close>: the pieces between the spaces; the empty string gives one empty piece.\<close>

fun split :: "char \<Rightarrow> string \<Rightarrow> string list" where
  "split sep [] = [[]]"
| "split sep (c # cs) =
     (if c = sep then [] # split sep cs
      else (case split sep cs of
              [] \<Rightarrow> [[c]]
            | w # ws \<Rightarrow> (c # w) # ws))"

text \<open>\<open>xs[i]\<close>: \<open>undefined\<close> past the end.\<close>

definition element :: "'a list \<Rightarrow> nat \<Rightarrow> 'a option" where
  "element xs i = (if i < length xs then Some (xs ! i) else None)"

text \<open>
  \<open>isAuthorized()\<close>. The token is split off the header before the header is tested, and the
  \<open>await\<close> of the validator is not inside a \<open>try\<close>.
\<close>

definition isAuthorized :: "AuthProvider \<Rightarrow> Request \<Rightarrow> Session \<Rightarrow> Result" where
  "isAuthorized this req sess =
     (case authorization req of
        None \<Rightarrow> \<lparr>response = Throw TypeError, session_after = sess, events = []\<rparr>
      | Some header \<Rightarrow>
          (let accessToken = element (split CHR '' '' header) 1
           in if header \<noteq> [] then
                (case verifyAccessTokenSignature (tokenValidator this) accessToken
                        (baseUrl req @ req_path req) of
                   Inl e \<Rightarrow>
                     \<lparr>response = Throw e, session_after = sess,
                      events = [Called VerifyAccessTokenSignature]\<rparr>
                 | Inr valid \<Rightarrow>
                     if \<not> valid then
                       \<lparr>response = Redirect (jstr (unauthorized (authRoutes (appSettings this)))),
                        session_after = sess,
                        events = [Called VerifyAccessTokenSignature, LogError INVALID_TOKEN]\<rparr>
                     else
                       \<lparr>response = Next, session_after = sess,
                        events = [Called VerifyAccessTokenSignature]\<rparr>)
              else
                \<lparr>response = Redirect (jstr (unauthorized (authRoutes (appSettings this)))),
                 session_after = sess, events = [LogError TOKEN_NOT_FOUND]\<rparr>))"

section \<open>handleOverage\<close>

text \<open>
  The two places where \<open>handleOverage\<close> stores the groups and evaluates the rule: the claims
  lose \<open>_claim_names\<close> and \<open>_claim_sources\<close> and get \<open>groups\<close>; a \<open>TypeError\<close> of the evaluator
  is caught by the enclosing \<open>try\<close> and passed to \<open>next\<close>.
\<close>

definition overageDecision ::
  "AuthProvider \<Rightarrow> Request \<Rightarrow> Session \<Rightarrow> AccountInfo \<Rightarrow> AccessRule \<Rightarrow> string list \<Rightarrow>
   event list \<Rightarrow> Result" where
  "overageDecision this req sess acct rule userGroups evs =
     (let newClaims = (idTokenClaims acct)
                        \<lparr>claim_names := None, claim_sources := None,
                         claim_groups := Some userGroups\<rparr>;
          sess1 = sess\<lparr>Session.account := Some (acct\<lparr>idTokenClaims := newClaims\<rparr>)\<rparr>
      in case checkAccessRule (req_method req) rule userGroups GROUPS of
           (Inl e, logged) \<Rightarrow>
             \<lparr>response = NextError e, session_after = sess1, events = evs @ logged\<rparr>
         | (Inr allowed, logged) \<Rightarrow>
             if \<not> allowed then
               \<lparr>response = Redirect (jstr (unauthorized (authRoutes (appSettings this)))),
                session_after = sess1, events = evs @ logged\<rparr>
             else \<lparr>response = Next, session_after = sess1, events = evs @ logged\<rparr>)"

text \<open>\<open>handleOverage(req, res, next, rule)\<close>. A next-page link is truthy when it is not empty.\<close>

definition handleOverage ::
  "AuthProvider \<Rightarrow> Imports \<Rightarrow> Request \<Rightarrow> Session \<Rightarrow> AccessRule \<Rightarrow> Result" where
  "handleOverage this imports req sess rule =
     (case Session.account sess of
        None \<Rightarrow> \<lparr>response = Throw TypeError, session_after = sess, events = []\<rparr>
      | Some acct \<Rightarrow>
          (case acquireTokenSilent (msalClient this)
                  \<lparr>SilentFlowRequest.account = Session.account sess,
                   SilentFlowRequest.scopes = Some (split CHR '' '' (GRAPH_MEMBER_SCOPES imports))\<rparr> of
             Inl e \<Rightarrow>
               \<lparr>response = NextError e, session_after = sess,
                events = [Called AcquireTokenSilent]\<rparr>
           | Inr tokenResponse \<Rightarrow>
               (case callApiEndpoint imports (GRAPH_MEMBERS_ENDPOINT imports)
                       (AuthenticationResult.accessToken tokenResponse) of
                  Inl e \<Rightarrow>
                    \<lparr>response = NextError e, session_after = sess,
                     events = [Called AcquireTokenSilent, Called CallApiEndpoint]\<rparr>
                | Inr graphResponse \<Rightarrow>
                    (case nextLink graphResponse of
                       None \<Rightarrow>
                         overageDecision this req sess acct rule (value_ids graphResponse)
                           [Called AcquireTokenSilent, Called CallApiEndpoint]
                     | Some link \<Rightarrow>
                         if link = [] then
                           overageDecision this req sess acct rule (value_ids graphResponse)
                             [Called AcquireTokenSilent, Called CallApiEndpoint]
                         else
                           (case handlePagination imports
                                   (AuthenticationResult.accessToken tokenResponse) link of
                              Inl e \<Rightarrow>
                                \<lparr>response = NextError e, session_after = sess,
                                 events = [Called AcquireTokenSilent, Called CallApiEndpoint,
                                           Called HandlePagination]\<rparr>
                            | Inr userGroups \<Rightarrow>
                                overageDecision this req sess acct rule userGroups
                                  [Called AcquireTokenSilent, Called CallApiEndpoint,
                                   Called HandlePagination])))))"

section \<open>What the interactive path leaves alone\<close>

text \<open>The call \<open>UrlUtils.ensureAbsoluteUrl(req, uri)\<close> throws, whatever its arguments.\<close>

lemma callFunction_UrlUtils_ensureAbsoluteUrl:
  "callFunction UrlUtils_ensureAbsoluteUrl req uri = Inl TypeError"
  by (simp add: callFunction_def UrlUtils_ensureAbsoluteUrl_def)

text \<open>
  \<open>getAuthCode\<close> never calls \<open>next()\<close> and does not touch the resources of the session, and
  so the \<open>catch\<close> clause of \<open>getToken\<close>, which also keeps the events it was entered with.
\<close>

lemma getAuthCode_not_Next: "response (getAuthCode this sess params) \<noteq> Next"
  by (simp add: getAuthCode_def Let_def split: option.splits sum.splits)

lemma getToken_catch_not_Next:
  "response (getToken_catch this options req sess evs err) \<noteq> Next"
  by (simp add: getToken_catch_def Let_def getAuthCode_not_Next split: sum.splits)

lemma getAuthCode_remoteResources:
  "Session.remoteResources (session_after (getAuthCode this sess params)) =
     Session.remoteResources sess"
  by (simp add: getAuthCode_def Let_def split: option.splits sum.splits)

lemma getToken_catch_remoteResources:
  "Session.remoteResources (session_after (getToken_catch this options req sess evs err)) =
     Session.remoteResources sess"
  by (simp add: getToken_catch_def Let_def getAuthCode_remoteResources split: sum.splits)

lemma getToken_catch_events:
  "set evs \<subseteq> set (events (getToken_catch this options req sess evs err))"
  by (simp add: getToken_catch_def Let_def split: sum.splits)

section \<open>Examples\<close>

definition exampleAccount :: AccountInfo where
  "exampleAccount =
     \<lparr>homeAccountId = ''uid.utid'', environment = ''login.microsoftonline.com'',
      tenantId = ''utid'', username = ''user@contoso.com'',
      idTokenClaims = \<lparr>claim_groups = None, claim_roles = None,
                       claim_names = Some (JObject [(''groups'', JString ''src1'')]),
                       claim_sources = None, other_claims = []\<rparr>\<rparr>"

definition exampleSettings :: AppSettings where
  "exampleSettings =
     \<lparr>authRoutes = \<lparr>redirect = ''/redirect'', error = ''/error'',
                    unauthorized = ''/unauthorized''\<rparr>,
      remoteResources =
        [(''graphAPI'', \<lparr>endpoint = Some ''https://graph.microsoft.com/v1.0/me'',
                         Resource.scopes = Some [''user.read''], Resource.accessToken = None\<rparr>),
         (''armAPI'', \<lparr>endpoint = Some ''https://management.azure.com/tenants'',
                       Resource.scopes = Some [''https://management.azure.com/user_impersonation''],
                       Resource.accessToken = None\<rparr>)],
      ownedResources = []\<rparr>"

text \<open>
  A client whose silent acquisition returns the access token \<open>silentToken\<close>, whose code
  exchange succeeds, and a validator that accepts every token or none.
\<close>

definition exampleClient :: "string \<Rightarrow> MsalClient" where
  "exampleClient silentToken =
     \<lparr>getAuthCodeUrl = (\<lambda>r. Inr (''https://login.microsoftonline.com/authorize?state='' @
                                   AuthorizationUrlRequest.state r)),
      acquireTokenByCode = (\<lambda>r. Inr \<lparr>AuthenticationResult.accessToken = ''access-token'',
                                       idToken = ''id-token'',
                                       AuthenticationResult.account = Some exampleAccount\<rparr>),
      acquireTokenSilent = (\<lambda>r. Inr \<lparr>AuthenticationResult.accessToken = silentToken,
                                       idToken = ''id-token'',
                                       AuthenticationResult.account = Some exampleAccount\<rparr>)\<rparr>"

definition exampleValidator :: "bool \<Rightarrow> TokenValidator" where
  "exampleValidator verdict =
     \<lparr>validateIdToken = (\<lambda>t. Inr verdict),
      verifyAccessTokenSignature = (\<lambda>t p. Inr verdict)\<rparr>"

definition exampleProvider :: "string \<Rightarrow> bool \<Rightarrow> AuthProvider" where
  "exampleProvider silentToken verdict =
     \<lparr>appSettings = exampleSettings,
      msalConfig_authority = ''https://login.microsoftonline.com/common'',
      cryptoProvider = NodeCryptoProvider,
      tokenValidator = exampleValidator verdict,
      msalClient = exampleClient silentToken\<rparr>"

text \<open>
  A session in which \<open>signIn\<close> has stored the nonce \<open>n1\<close> and the two pending requests.
\<close>

definition exampleSession :: Session where
  "exampleSession =
     \<lparr>isAuthenticated = False, nonce = Some ''n1'', Session.account = None,
      authCodeRequest = Some \<lparr>AuthorizationUrlRequest.authority = [],
                              AuthorizationUrlRequest.scopes = Some [],
                              AuthorizationUrlRequest.state = [],
                              AuthorizationUrlRequest.redirectUri = [],
                              AuthorizationUrlRequest.prompt = None,
                              AuthorizationUrlRequest.account = None\<rparr>,
      tokenRequest = Some \<lparr>AuthorizationCodeRequest.authority = [],
                           AuthorizationCodeRequest.scopes = Some [],
                           AuthorizationCodeRequest.redirectUri = [], code = None\<rparr>,
      Session.remoteResources = None\<rparr>"

text \<open>The redirect request \<open>GET /redirect?code=c0de&state=...\<close>.\<close>

definition exampleCallback :: "string \<Rightarrow> Request" where
  "exampleCallback st =
     \<lparr>query_state = Some st, query_code = Some ''c0de'', originalUrl = ''/redirect'',
      req_method = ''GET'', protocol = ''https'', host = Some ''app.contoso.com'',
      authorization = None, baseUrl = [], req_path = ''/redirect''\<rparr>"

text \<open>
  \<open>UrlString\<close> finds no protocol and no host in a path, the first page of the directory's
  answer holds the group \<open>g1\<close> and a link to the next page, and following the link gives
  the group \<open>g2\<close>.
\<close>

definition exampleImports :: Imports where
  "exampleImports =
     \<lparr>getUrlComponents = (\<lambda>uri. Inr \<lparr>Protocol = [], HostNameAndPort = []\<rparr>),
      callApiEndpoint =
        (\<lambda>endpoint token.
           Inr \<lparr>nextLink = Some ''https://graph.microsoft.com/v1.0/me/memberOf?page=2'',
                value_ids = [''g1'']\<rparr>),
      handlePagination = (\<lambda>token link. Inr [''g2'']),
      GRAPH_MEMBERS_ENDPOINT = ''https://graph.microsoft.com/v1.0/me/memberOf'',
      GRAPH_MEMBER_SCOPES = ''User.Read GroupMember.Read.All''\<rparr>"

text \<open>The request \<open>GET /profile\<close> of a signed-in user, and the options of its \<open>getToken\<close>.\<close>

definition exampleProfileRequest :: Request where
  "exampleProfileRequest =
     \<lparr>query_state = None, query_code = None, originalUrl = ''/profile'',
      req_method = ''GET'', protocol = ''https'', host = Some ''app.contoso.com'',
      authorization = None, baseUrl = [], req_path = ''/profile''\<rparr>"

definition exampleOptions :: TokenRequestOptions where
  "exampleOptions =
     \<lparr>resource = \<lparr>endpoint = Some ''https://graph.microsoft.com/v1.0/me'',
                   Resource.scopes = Some [''user.read''], Resource.accessToken = None\<rparr>\<rparr>"

definition exampleSignedIn :: Session where
  "exampleSignedIn =
     exampleSession\<lparr>isAuthenticated := True, Session.account := Some exampleAccount,
       Session.remoteResources :=
         Some [(''armAPI'', \<lparr>endpoint = Some ''https://management.azure.com/tenants'',
                             Resource.scopes = Some [''https://management.azure.com/user_impersonation''],
                             Resource.accessToken = Some ''arm-token''\<rparr>)]\<rparr>"

section \<open>Properties\<close>

subsection \<open>C1: a nonce mismatch is denied\<close>

text \<open>
  Claim C1. A callback whose state parameter is present and decodes to a value whose nonce
  is not the nonce of the session is answered with a redirect to the unauthorized route;
  the session is left as it was and nothing but the \<open>NONCE_MISMATCH\<close> log happens: no code
  exchange, no validation, whatever the stage and the path of the state.
\<close>

theorem handleRedirect_nonce_mismatch:
  assumes "query_state req = Some qs" and "qs \<noteq> []"
    and "decodeState (cryptoProvider this) qs = Inr st" and "st \<noteq> JNull"
    and "\<not> strictEquals (property st ''nonce'') (nonce sess)"
  shows "handleRedirect this req sess =
           \<lparr>response = Redirect (jstr (unauthorized (authRoutes (appSettings this)))),
            session_after = sess, events = [LogError NONCE_MISMATCH]\<rparr>"
  using assms by (simp add: handleRedirect_def)

text \<open>
  The state \<open>{"stage":"sign_in","path":"/home","nonce":"n0"}\<close> arrives in a session whose
  nonce is \<open>n1\<close>.
\<close>

theorem handleRedirect_nonce_mismatch_witness:
  "query_state (exampleCallback
       ''eyJzdGFnZSI6InNpZ25faW4iLCJwYXRoIjoiL2hvbWUiLCJub25jZSI6Im4wIn0='') =
     Some ''eyJzdGFnZSI6InNpZ25faW4iLCJwYXRoIjoiL2hvbWUiLCJub25jZSI6Im4wIn0='' \<and>
   decodeState (cryptoProvider (exampleProvider [] True))
       ''eyJzdGFnZSI6InNpZ25faW4iLCJwYXRoIjoiL2hvbWUiLCJub25jZSI6Im4wIn0='' =
     Inr (JObject [(''stage'', JString ''sign_in''), (''path'', JString ''/home''),
                   (''nonce'', JString ''n0'')]) \<and>
   \<not> strictEquals
       (property (JObject [(''stage'', JString ''sign_in''), (''path'', JString ''/home''),
                           (''nonce'', JString ''n0'')]) ''nonce'')
       (nonce exampleSession) \<and>
   handleRedirect (exampleProvider [] True)
       (exampleCallback ''eyJzdGFnZSI6InNpZ25faW4iLCJwYXRoIjoiL2hvbWUiLCJub25jZSI6Im4wIn0='')
       exampleSession =
     \<lparr>response = Redirect (jstr ''/unauthorized''), session_after = exampleSession,
      events = [LogError NONCE_MISMATCH]\<rparr>"
proof -
  let ?qs = "''eyJzdGFnZSI6InNpZ25faW4iLCJwYXRoIjoiL2hvbWUiLCJub25jZSI6Im4wIn0=''"
  let ?st = "JObject [(''stage'', JString ''sign_in''), (''path'', JString ''/home''),
                      (''nonce'', JString ''n0'')]"
  have q: "query_state (exampleCallback ?qs) = Some ?qs"
    by (simp add: exampleCallback_def)
  have ne: "?qs \<noteq> []"
    by simp
  have d: "decodeState (cryptoProvider (exampleProvider [] True)) ?qs = Inr ?st"
    by code_simp
  have nn: "?st \<noteq> JNull"
    by simp
  have m: "\<not> strictEquals (property ?st ''nonce'') (nonce exampleSession)"
    by (simp add: strictEquals_def exampleSession_def)
  have u: "unauthorized (authRoutes (appSettings (exampleProvider [] True))) = ''/unauthorized''"
    by (simp add: exampleProvider_def exampleSettings_def)
  from handleRedirect_nonce_mismatch [OF q ne d nn m] q d m u show ?thesis
    by simp
qed

text \<open>A missing or empty state is denied in the same way, with its own log.\<close>

lemma handleRedirect_state_missing:
  assumes "query_state req = None \<or> query_state req = Some []"
  shows "handleRedirect this req sess =
           \<lparr>response = Redirect (jstr (unauthorized (authRoutes (appSettings this)))),
            session_after = sess, events = [LogError STATE_NOT_FOUND]\<rparr>"
  using assms by (auto simp: handleRedirect_def)

subsection \<open>C2: overage and the pages of the directory\<close>

text \<open>
  With a next-page link in the first answer, what \<open>handleOverage\<close> does is the same whatever
  items the first page holds: only the result of \<open>handlePagination\<close> reaches the claims and
  the evaluator.
\<close>

lemma handleOverage_drops_first_page:
  assumes "link \<noteq> []"
  shows "handleOverage this
           (imports\<lparr>callApiEndpoint := (\<lambda>endpoint token. Inr \<lparr>nextLink = Some link, value_ids = ids\<rparr>)\<rparr>)
           req sess rule =
         handleOverage this
           (imports\<lparr>callApiEndpoint := (\<lambda>endpoint token. Inr \<lparr>nextLink = Some link, value_ids = []\<rparr>)\<rparr>)
           req sess rule"
  using assms by (simp add: handleOverage_def split: option.splits sum.splits)

text \<open>
  Claim C2 says that with a next-page link the rule is evaluated against the groups of all
  pages, those of the first page included. The code does not do that. Here the user is a
  member of \<open>g1\<close>, which the first page of the directory's answer lists, and of \<open>g2\<close>, which
  the next page lists; the rule asks for \<open>g1\<close> on \<open>GET\<close>, which the merged groups satisfy.
  The claims get \<open>groups = ["g2"]\<close>, the evaluator finds no common group, and the request
  is sent to the unauthorized route.
\<close>

theorem handleOverage_first_page_lost:
  "callApiEndpoint exampleImports (GRAPH_MEMBERS_ENDPOINT exampleImports) ''graph-token'' =
     Inr \<lparr>nextLink = Some ''https://graph.microsoft.com/v1.0/me/memberOf?page=2'',
          value_ids = [''g1'']\<rparr> \<and>
   handlePagination exampleImports ''graph-token''
       ''https://graph.microsoft.com/v1.0/me/memberOf?page=2'' = Inr [''g2''] \<and>
   fst (checkAccessRule ''GET'' \<lparr>methods = [''GET''], roles = None, groups = Some [''g1'']\<rparr>
          [''g1'', ''g2''] GROUPS) = Inr True \<and>
   response (handleOverage (exampleProvider ''graph-token'' True) exampleImports
               exampleProfileRequest exampleSignedIn
               \<lparr>methods = [''GET''], roles = None, groups = Some [''g1'']\<rparr>) =
     Redirect (jstr ''/unauthorized'') \<and>
   map_option (\<lambda>a. claim_groups (idTokenClaims a))
       (Session.account (session_after
          (handleOverage (exampleProvider ''graph-token'' True) exampleImports
             exampleProfileRequest exampleSignedIn
             \<lparr>methods = [''GET''], roles = None, groups = Some [''g1'']\<rparr>))) =
     Some (Some [''g2''])"
  by (simp add: handleOverage_def overageDecision_def checkAccessRule_def GROUPS_def
      exampleImports_def exampleProvider_def exampleClient_def exampleSettings_def
      exampleProfileRequest_def exampleSignedIn_def exampleSession_def exampleAccount_def)

subsection \<open>C3: a successful sign-in\<close>

text \<open>
  Claim C3. A callback whose state has the nonce of the session and the stage \<open>SIGN_IN\<close>,
  whose code is exchanged successfully and whose identity token the validator accepts,
  stores the account of the token response in the session, sets \<open>isAuthenticated\<close>, and
  redirects to the path of the decoded state. The only other change of the session is the
  code copied into the pending token request.
\<close>

theorem handleRedirect_sign_in:
  assumes "query_state req = Some qs" and "qs \<noteq> []"
    and "decodeState (cryptoProvider this) qs = Inr st"
    and "strictEquals (property st ''nonce'') (nonce sess)"
    and "property st ''stage'' = jstr SIGN_IN"
    and "tokenRequest sess = Some tr"
    and "acquireTokenByCode (msalClient this) (tr\<lparr>code := query_code req\<rparr>) = Inr tokenResponse"
    and "validateIdToken (tokenValidator this) (idToken tokenResponse) = Inr True"
  shows "handleRedirect this req sess =
           \<lparr>response = Redirect (property st ''path''),
            session_after =
              sess\<lparr>tokenRequest := Some (tr\<lparr>code := query_code req\<rparr>),
                   Session.account := AuthenticationResult.account tokenResponse,
                   isAuthenticated := True\<rparr>,
            events = [Called AcquireTokenByCode, Called ValidateIdToken]\<rparr>"
proof -
  from assms(5) have "st \<noteq> JNull"
    by auto
  with assms show ?thesis
    by (simp add: handleRedirect_def handleRedirect_SIGN_IN_def)
qed

text \<open>
  The state \<open>{"stage":"sign_in","path":"/home","nonce":"n1"}\<close> arrives in the session with
  the nonce \<open>n1\<close>; the exchange succeeds and the validator accepts.
\<close>

theorem handleRedirect_sign_in_witness:
  "decodeState (cryptoProvider (exampleProvider [] True))
       ''eyJzdGFnZSI6InNpZ25faW4iLCJwYXRoIjoiL2hvbWUiLCJub25jZSI6Im4xIn0='' =
     Inr (JObject [(''stage'', JString ''sign_in''), (''path'', JString ''/home''),
                   (''nonce'', JString ''n1'')]) \<and>
   nonce exampleSession = Some ''n1'' \<and>
   response (handleRedirect (exampleProvider [] True)
       (exampleCallback ''eyJzdGFnZSI6InNpZ25faW4iLCJwYXRoIjoiL2hvbWUiLCJub25jZSI6Im4xIn0='')
       exampleSession) = Redirect (jstr ''/home'') \<and>
   isAuthenticated (session_after (handleRedirect (exampleProvider [] True)
       (exampleCallback ''eyJzdGFnZSI6InNpZ25faW4iLCJwYXRoIjoiL2hvbWUiLCJub25jZSI6Im4xIn0='')
       exampleSession)) \<and>
   Session.account (session_after (handleRedirect (exampleProvider [] True)
       (exampleCallback ''eyJzdGFnZSI6InNpZ25faW4iLCJwYXRoIjoiL2hvbWUiLCJub25jZSI6Im4xIn0='')
       exampleSession)) = Some exampleAccount"
proof -
  let ?qs = "''eyJzdGFnZSI6InNpZ25faW4iLCJwYXRoIjoiL2hvbWUiLCJub25jZSI6Im4xIn0=''"
  let ?st = "JObject [(''stage'', JString ''sign_in''), (''path'', JString ''/home''),
                      (''nonce'', JString ''n1'')]"
  let ?tr = "\<lparr>AuthorizationCodeRequest.authority = [],
              AuthorizationCodeRequest.scopes = Some [],
              AuthorizationCodeRequest.redirectUri = [], code = None\<rparr>"
  let ?resp = "\<lparr>AuthenticationResult.accessToken = ''access-token'', idToken = ''id-token'',
                AuthenticationResult.account = Some exampleAccount\<rparr>"
  have q: "query_state (exampleCallback ?qs) = Some ?qs"
    by (simp add: exampleCallback_def)
  have ne: "?qs \<noteq> []"
    by simp
  have d: "decodeState (cryptoProvider (exampleProvider [] True)) ?qs = Inr ?st"
    by code_simp
  have m: "strictEquals (property ?st ''nonce'') (nonce exampleSession)"
    by (simp add: strictEquals_def exampleSession_def)
  have s: "property ?st ''stage'' = jstr SIGN_IN"
    by (simp add: SIGN_IN_def)
  have t: "tokenRequest exampleSession = Some ?tr"
    by (simp add: exampleSession_def)
  have x: "acquireTokenByCode (msalClient (exampleProvider [] True))
             (?tr\<lparr>code := query_code (exampleCallback ?qs)\<rparr>) = Inr ?resp"
    by (simp add: exampleProvider_def exampleClient_def)
  have v: "validateIdToken (tokenValidator (exampleProvider [] True)) (idToken ?resp) = Inr True"
    by (simp add: exampleProvider_def exampleValidator_def)
  from handleRedirect_sign_in [OF q ne d m s t x v] d show ?thesis
    by (simp add: exampleSession_def)
qed

text \<open>
  When the validator rejects the identity token the user is sent to the unauthorized
  route, and neither the account nor the flag of the session changes.
\<close>

lemma handleRedirect_invalid_id_token:
  assumes "query_state req = Some qs" and "qs \<noteq> []"
    and "decodeState (cryptoProvider this) qs = Inr st"
    and "strictEquals (property st ''nonce'') (nonce sess)"
    and "property st ''stage'' = jstr SIGN_IN"
    and "tokenRequest sess = Some tr"
    and "acquireTokenByCode (msalClient this) (tr\<lparr>code := query_code req\<rparr>) = Inr tokenResponse"
    and "validateIdToken (tokenValidator this) (idToken tokenResponse) = Inr False"
  shows "handleRedirect this req sess =
           \<lparr>response = Redirect (jstr (unauthorized (authRoutes (appSettings this)))),
            session_after = sess\<lparr>tokenRequest := Some (tr\<lparr>code := query_code req\<rparr>)\<rparr>,
            events = [Called AcquireTokenByCode, Called ValidateIdToken,
                      LogError INVALID_TOKEN]\<rparr>"
proof -
  from assms(5) have "st \<noteq> JNull"
    by auto
  with assms show ?thesis
    by (simp add: handleRedirect_def handleRedirect_SIGN_IN_def)
qed

subsection \<open>C4: the access rule evaluator\<close>

lemma filter_member_empty:
  "(filter (\<lambda>elem. elem \<in> set creds) xs = []) = (set xs \<inter> set creds = {})"
  by (induction xs) auto

text \<open>
  Claim C4. A method outside \<open>rule.methods\<close> is denied whatever the credentials. For an
  allowed method and the credential type \<open>groups\<close> (or \<open>roles\<close>), the evaluator returns true
  exactly when the rule's groups (roles) and the credentials have a common member, so one
  matching credential is enough, and false exactly when they have none.
\<close>

theorem checkAccessRule_decides:
  "(method \<notin> set (methods rule) \<longrightarrow>
      fst (checkAccessRule method rule creds credType) = Inr False) \<and>
   (method \<in> set (methods rule) \<and> groups rule = Some gs \<longrightarrow>
      fst (checkAccessRule method rule creds GROUPS) = Inr (set gs \<inter> set creds \<noteq> {})) \<and>
   (method \<in> set (methods rule) \<and> roles rule = Some rs \<longrightarrow>
      fst (checkAccessRule method rule creds ROLES) = Inr (set rs \<inter> set creds \<noteq> {})) \<and>
   (method \<in> set (methods rule) \<and> groups rule = Some gs \<and> c \<in> set gs \<and> c \<in> set creds \<longrightarrow>
      fst (checkAccessRule method rule creds GROUPS) = Inr True) \<and>
   (method \<in> set (methods rule) \<and> roles rule = Some rs \<and> c \<in> set rs \<and> c \<in> set creds \<longrightarrow>
      fst (checkAccessRule method rule creds ROLES) = Inr True)"
proof -
  have ne: "ROLES \<noteq> GROUPS"
    by (simp add: ROLES_def GROUPS_def)
  have denied: "method \<notin> set (methods rule) \<Longrightarrow>
      fst (checkAccessRule method rule creds credType) = Inr False"
    by (simp add: checkAccessRule_def)
  have by_groups: "method \<in> set (methods rule) \<Longrightarrow> groups rule = Some gs \<Longrightarrow>
      fst (checkAccessRule method rule creds GROUPS) = Inr (set gs \<inter> set creds \<noteq> {})"
    by (simp add: checkAccessRule_def filter_member_empty)
  have by_roles: "method \<in> set (methods rule) \<Longrightarrow> roles rule = Some rs \<Longrightarrow>
      fst (checkAccessRule method rule creds ROLES) = Inr (set rs \<inter> set creds \<noteq> {})"
    using ne by (simp add: checkAccessRule_def filter_member_empty)
  have one_group: "method \<in> set (methods rule) \<Longrightarrow> groups rule = Some gs \<Longrightarrow>
      c \<in> set gs \<Longrightarrow> c \<in> set creds \<Longrightarrow>
      fst (checkAccessRule method rule creds GROUPS) = Inr True"
    using by_groups by auto
  have one_role: "method \<in> set (methods rule) \<Longrightarrow> roles rule = Some rs \<Longrightarrow>
      c \<in> set rs \<Longrightarrow> c \<in> set creds \<Longrightarrow>
      fst (checkAccessRule method rule creds ROLES) = Inr True"
    using by_roles by auto
  show ?thesis
    using denied by_groups by_roles one_group one_role by blast
qed

text \<open>
  The rule \<open>{methods: ["GET"], roles: ["admin"]}\<close>: the credentials \<open>["admin", "user"]\<close> are
  allowed on \<open>GET\<close>, the credentials \<open>["user"]\<close> are denied, and \<open>POST\<close> is denied.
\<close>

theorem checkAccessRule_decides_witness:
  "''POST'' \<notin> set (methods \<lparr>methods = [''GET''], roles = Some [''admin''], groups = None\<rparr>) \<and>
   fst (checkAccessRule ''POST'' \<lparr>methods = [''GET''], roles = Some [''admin''], groups = None\<rparr>
          [''admin'', ''user''] ROLES) = Inr False \<and>
   ''GET'' \<in> set (methods \<lparr>methods = [''GET''], roles = Some [''admin''], groups = None\<rparr>) \<and>
   fst (checkAccessRule ''GET'' \<lparr>methods = [''GET''], roles = Some [''admin''], groups = None\<rparr>
          [''admin'', ''user''] ROLES) = Inr True \<and>
   fst (checkAccessRule ''GET'' \<lparr>methods = [''GET''], roles = Some [''admin''], groups = None\<rparr>
          [''user''] ROLES) = Inr False"
  using
    checkAccessRule_decides [of "''POST''"
      "\<lparr>methods = [''GET''], roles = Some [''admin''], groups = None\<rparr>"
      "[''admin'', ''user'']" ROLES "[]" "[''admin'']" "''admin''"]
    checkAccessRule_decides [of "''GET''"
      "\<lparr>methods = [''GET''], roles = Some [''admin''], groups = None\<rparr>"
      "[''admin'', ''user'']" ROLES "[]" "[''admin'']" "''admin''"]
    checkAccessRule_decides [of "''GET''"
      "\<lparr>methods = [''GET''], roles = Some [''admin''], groups = None\<rparr>"
      "[''user'']" ROLES "[]" "[''admin'']" "''admin''"]
  by simp

subsection \<open>C5: an empty token from the silent acquisition\<close>

text \<open>
  When the silent acquisition succeeds with an empty access token, \<open>getToken\<close> logs
  \<open>TOKEN_NOT_FOUND\<close> and throws an \<open>InteractionRequiredAuthError\<close> of its own, so its
  \<open>catch\<close> clause runs as it does when the acquisition itself asks for interaction:
  \<open>next()\<close> is not called and no token is stored. The clause builds the state and then
  calls \<open>UrlUtils.ensureAbsoluteUrl\<close>, which is \<open>undefined\<close>: a \<open>TypeError\<close> leaves the handler
  before \<open>getAuthCode\<close> is called, the pending requests of the session are not written and
  nothing is sent.
\<close>

lemma getToken_empty_accessToken:
  assumes "acquireTokenSilent (msalClient this)
             \<lparr>SilentFlowRequest.account = Session.account sess,
              SilentFlowRequest.scopes = Resource.scopes (resource options)\<rparr> = Inr tokenResponse"
    and "AuthenticationResult.accessToken tokenResponse = []"
  shows "getToken this options req sess =
           \<lparr>response = Throw TypeError,
            session_after =
              sess\<lparr>Session.remoteResources :=
                     Some [(ToString (getResourceNameFromScopes this
                                        (Resource.scopes (resource options))),
                            sessionResource this
                              (ToString (getResourceNameFromScopes this
                                           (Resource.scopes (resource options)))) None)]\<rparr>,
            events = [Called AcquireTokenSilent, LogError TOKEN_NOT_FOUND]\<rparr>"
  using assms
  by (simp add: getToken_def Let_def isEmpty_def getToken_catch_def
      callFunction_UrlUtils_ensureAbsoluteUrl)

text \<open>The same, but for the log, when the silent acquisition asks for interaction.\<close>

lemma getToken_interaction_required:
  assumes "acquireTokenSilent (msalClient this)
             \<lparr>SilentFlowRequest.account = Session.account sess,
              SilentFlowRequest.scopes = Resource.scopes (resource options)\<rparr> =
           Inl InteractionRequiredAuthError"
  shows "getToken this options req sess =
           \<lparr>response = Throw TypeError,
            session_after =
              sess\<lparr>Session.remoteResources :=
                     Some [(ToString (getResourceNameFromScopes this
                                        (Resource.scopes (resource options))),
                            sessionResource this
                              (ToString (getResourceNameFromScopes this
                                           (Resource.scopes (resource options)))) None)]\<rparr>,
            events = [Called AcquireTokenSilent]\<rparr>"
  using assms
  by (simp add: getToken_def Let_def getToken_catch_def callFunction_UrlUtils_ensureAbsoluteUrl)

text \<open>
  What the clause goes on to once it has its \<open>params\<close>: for any redirect URL, \<open>getAuthCode\<close>
  writes the state built from the stage \<open>ACQUIRE_TOKEN\<close>, the original URL of the request and
  the nonce of the session into the authorization-code request, and answers with the
  redirect to the URL \<open>getAuthCodeUrl\<close> returns for that request (or \<open>next(error)\<close> when it
  fails).
\<close>

lemma getAuthCode_ACQUIRE_TOKEN:
  assumes "authCodeRequest sess = Some acr" and "tokenRequest sess = Some tr"
  shows "(let acr' = acr\<lparr>AuthorizationUrlRequest.authority := msalConfig_authority this,
                         AuthorizationUrlRequest.scopes := Resource.scopes (resource options),
                         AuthorizationUrlRequest.state :=
                           encodeState (cryptoProvider this) ACQUIRE_TOKEN
                             (Some (originalUrl req)) (nonce sess),
                         AuthorizationUrlRequest.redirectUri := absoluteUrl,
                         AuthorizationUrlRequest.prompt := None,
                         AuthorizationUrlRequest.account := Session.account sess\<rparr>;
              tr' = tr\<lparr>AuthorizationCodeRequest.authority := msalConfig_authority this,
                       AuthorizationCodeRequest.scopes := Resource.scopes (resource options),
                       AuthorizationCodeRequest.redirectUri := absoluteUrl\<rparr>
          in getAuthCode this sess
               \<lparr>AuthCodeParams.authority = msalConfig_authority this,
                AuthCodeParams.scopes = Resource.scopes (resource options),
                AuthCodeParams.state =
                  encodeState (cryptoProvider this) ACQUIRE_TOKEN (Some (originalUrl req))
                    (nonce sess),
                AuthCodeParams.redirect = absoluteUrl,
                AuthCodeParams.prompt = None,
                AuthCodeParams.account = Session.account sess\<rparr> =
               \<lparr>response =
                  (case getAuthCodeUrl (msalClient this) acr' of
                     Inl e \<Rightarrow> NextError e
                   | Inr url \<Rightarrow> Redirect (jstr url)),
                session_after = sess\<lparr>authCodeRequest := Some acr', tokenRequest := Some tr'\<rparr>,
                events =
                  Called GetAuthCodeUrl #
                  (case getAuthCodeUrl (msalClient this) acr' of
                     Inl e \<Rightarrow> [LogError AUTH_CODE_NOT_OBTAINED]
                   | Inr url \<Rightarrow> [])\<rparr>)"
  using assms by (simp add: getAuthCode_def Let_def split: sum.splits)

text \<open>
  An instance of \<open>UrlUtils\<close> does give the redirect URL of the example, and the state the
  clause builds for \<open>GET /profile\<close> is \<open>{"stage":"acquire_token","path":"/profile","nonce":"n1"}\<close>.
\<close>

lemma ensureAbsoluteUrl_example:
  "ensureAbsoluteUrl exampleImports \<lparr>UrlUtils.baseUrl = None\<rparr> exampleProfileRequest
     (AuthRoutes.redirect (authRoutes exampleSettings)) = Inr ''https://app.contoso.com/redirect''"
  by (simp add: ensureAbsoluteUrl_def exampleImports_def exampleProfileRequest_def
      exampleSettings_def ToString_def)

lemma encodeState_ACQUIRE_TOKEN_example:
  "encodeState NodeCryptoProvider ACQUIRE_TOKEN (Some (originalUrl exampleProfileRequest))
     (nonce exampleSignedIn) =
     ''eyJzdGFnZSI6ImFjcXVpcmVfdG9rZW4iLCJwYXRoIjoiL3Byb2ZpbGUiLCJub25jZSI6Im4xIn0='' \<and>
   decodeState NodeCryptoProvider
       ''eyJzdGFnZSI6ImFjcXVpcmVfdG9rZW4iLCJwYXRoIjoiL3Byb2ZpbGUiLCJub25jZSI6Im4xIn0='' =
     Inr (JObject [(''stage'', JString ACQUIRE_TOKEN),
                   (''path'', JString (originalUrl exampleProfileRequest)),
                   (''nonce'', JString ''n1'')])"
  by code_simp

text \<open>
  Claim C5 says that an empty token from a silent acquisition that succeeds is not taken
  for success but starts the interactive path: a state with the stage \<open>ACQUIRE_TOKEN\<close> and
  the original URL of the request, and the redirect through \<open>getAuthCode\<close>. The first half
  holds; the redirect does not happen. The silent acquisition for \<open>GET /profile\<close> returns an
  empty token: \<open>TOKEN_NOT_FOUND\<close> is logged and no token is stored, but the call of
  \<open>UrlUtils.ensureAbsoluteUrl\<close> throws a \<open>TypeError\<close>, so the answer is no redirect and the
  authorization-code request of the session still has the empty state it had.
\<close>

theorem getToken_empty_token_throws:
  "acquireTokenSilent (msalClient (exampleProvider [] True))
       \<lparr>SilentFlowRequest.account = Session.account exampleSignedIn,
        SilentFlowRequest.scopes = Resource.scopes (resource exampleOptions)\<rparr> =
     Inr \<lparr>AuthenticationResult.accessToken = [], idToken = ''id-token'',
          AuthenticationResult.account = Some exampleAccount\<rparr> \<and>
   getToken (exampleProvider [] True) exampleOptions exampleProfileRequest exampleSignedIn =
     \<lparr>response = Throw TypeError,
      session_after =
        exampleSignedIn\<lparr>Session.remoteResources :=
          Some [(''graphAPI'', \<lparr>endpoint = Some ''https://graph.microsoft.com/v1.0/me'',
                                Resource.scopes = Some [''user.read''],
                                Resource.accessToken = None\<rparr>)]\<rparr>,
      events = [Called AcquireTokenSilent, LogError TOKEN_NOT_FOUND]\<rparr> \<and>
   response (getToken (exampleProvider [] True) exampleOptions exampleProfileRequest
               exampleSignedIn) \<noteq>
     Redirect (jstr (''https://login.microsoftonline.com/authorize?state='' @
       ''eyJzdGFnZSI6ImFjcXVpcmVfdG9rZW4iLCJwYXRoIjoiL3Byb2ZpbGUiLCJub25jZSI6Im4xIn0='')) \<and>
   map_option AuthorizationUrlRequest.state
       (authCodeRequest (session_after
          (getToken (exampleProvider [] True) exampleOptions exampleProfileRequest
             exampleSignedIn))) = Some []"
  by code_simp

text \<open>A token that is not empty is stored for the resource, and the next handler runs.\<close>

lemma getToken_stores_token:
  assumes "acquireTokenSilent (msalClient this)
             \<lparr>SilentFlowRequest.account = Session.account sess,
              SilentFlowRequest.scopes = Resource.scopes (resource options)\<rparr> = Inr tokenResponse"
    and "AuthenticationResult.accessToken tokenResponse \<noteq> []"
  shows "getToken this options req sess =
           \<lparr>response = Next,
            session_after =
              sess\<lparr>Session.remoteResources :=
                     Some [(ToString (getResourceNameFromScopes this
                                        (Resource.scopes (resource options))),
                            sessionResource this
                              (ToString (getResourceNameFromScopes this
                                           (Resource.scopes (resource options))))
                              (Some (AuthenticationResult.accessToken tokenResponse)))]\<rparr>,
            events = [Called AcquireTokenSilent]\<rparr>"
  using assms
  by (simp add: getToken_def Let_def isEmpty_def setAccessToken_def sessionResource_def
      split: option.splits)

subsection \<open>C6: a state that is not JSON\<close>

text \<open>
  Claim C6, as the spec states it, fails: the state \<open>ew==\<close> is the Base64 text of \<open>{\<close>,
  which is not JSON. \<open>JSON.parse\<close> stands outside every \<open>try\<close> of the handler, so its
  \<open>SyntaxError\<close> leaves the handler and no redirect is sent.
\<close>

theorem handleRedirect_malformed_state_counterexample:
  "query_state (exampleCallback ''ew=='') = Some ''ew=='' \<and>
   base64Decode (cryptoProvider (exampleProvider [] True)) ''ew=='' = ''{'' \<and>
   JSON_parse ''{'' = Inl SyntaxError \<and>
   response (handleRedirect (exampleProvider [] True) (exampleCallback ''ew=='') exampleSession)
     = Throw SyntaxError \<and>
   response (handleRedirect (exampleProvider [] True) (exampleCallback ''ew=='') exampleSession)
     \<noteq> Redirect (jstr (unauthorized (authRoutes (appSettings (exampleProvider [] True)))))"
  by code_simp

text \<open>
  Claim C6, amended. When the state parameter is present and not empty and its decoded
  text is not JSON, the \<open>SyntaxError\<close> of \<open>JSON.parse\<close> leaves the handler: nothing is sent
  (no redirect, no \<open>next\<close>), nothing is logged and the session is left as it was.
\<close>

theorem handleRedirect_malformed_state:
  assumes "query_state req = Some qs" and "qs \<noteq> []"
    and "JSON_parse (base64Decode (cryptoProvider this) qs) = Inl e"
  shows "handleRedirect this req sess =
           \<lparr>response = Throw SyntaxError, session_after = sess, events = []\<rparr>"
  using assms JSON_parse_error [OF assms(3)]
  by (simp add: handleRedirect_def decodeState_def)

theorem handleRedirect_malformed_state_witness:
  "query_state (exampleCallback ''ew=='') = Some ''ew=='' \<and>
   JSON_parse (base64Decode (cryptoProvider (exampleProvider [] True)) ''ew=='') = Inl SyntaxError \<and>
   handleRedirect (exampleProvider [] True) (exampleCallback ''ew=='') exampleSession =
     \<lparr>response = Throw SyntaxError, session_after = exampleSession, events = []\<rparr>"
proof -
  have q: "query_state (exampleCallback ''ew=='') = Some ''ew==''"
    by (simp add: exampleCallback_def)
  have ne: "''ew=='' \<noteq> []"
    by simp
  have p: "JSON_parse (base64Decode (cryptoProvider (exampleProvider [] True)) ''ew=='')
             = Inl SyntaxError"
    by code_simp
  from handleRedirect_malformed_state [OF q ne p] q p show ?thesis
    by simp
qed

subsection \<open>C7: the bearer-token guard\<close>

text \<open>
  A header whose token the validator rejects is answered with the redirect to the
  unauthorized route, and so is a header that is the empty string.
\<close>

lemma isAuthorized_rejected_token:
  assumes "authorization req = Some header" and "header \<noteq> []"
    and "verifyAccessTokenSignature (tokenValidator this) (element (split CHR '' '' header) 1)
           (baseUrl req @ req_path req) = Inr False"
  shows "isAuthorized this req sess =
           \<lparr>response = Redirect (jstr (unauthorized (authRoutes (appSettings this)))),
            session_after = sess,
            events = [Called VerifyAccessTokenSignature, LogError INVALID_TOKEN]\<rparr>"
  using assms by (simp add: isAuthorized_def)

lemma isAuthorized_empty_header:
  assumes "authorization req = Some []"
  shows "isAuthorized this req sess =
           \<lparr>response = Redirect (jstr (unauthorized (authRoutes (appSettings this)))),
            session_after = sess, events = [LogError TOKEN_NOT_FOUND]\<rparr>"
  using assms by (simp add: isAuthorized_def)

text \<open>
  Claim C7 says that a request without an \<open>Authorization\<close> header is redirected to the
  unauthorized route, and so is one whose token fails the verification. The second half
  holds (\<open>isAuthorized_rejected_token\<close>); the first does not. \<open>GET /profile\<close> carries no
  header: \<open>req.headers.authorization.split(" ")\<close> throws a \<open>TypeError\<close> before the header
  is tested, so the branch that logs \<open>TOKEN_NOT_FOUND\<close> and redirects to the unauthorized
  route is not reached and nothing is sent.
\<close>

theorem isAuthorized_missing_header_throws:
  "authorization exampleProfileRequest = None \<and>
   isAuthorized (exampleProvider [] True) exampleProfileRequest exampleSignedIn =
     \<lparr>response = Throw TypeError, session_after = exampleSignedIn, events = []\<rparr> \<and>
   response (isAuthorized (exampleProvider [] True) exampleProfileRequest exampleSignedIn) \<noteq>
     Redirect (jstr (unauthorized (authRoutes (appSettings (exampleProvider [] True)))))"
  by (simp add: isAuthorized_def exampleProfileRequest_def)

text \<open>The same for every request without the header.\<close>

lemma isAuthorized_missing_header:
  "authorization req = None \<Longrightarrow>
   isAuthorized this req sess = \<lparr>response = Throw TypeError, session_after = sess, events = []\<rparr>"
  by (simp add: isAuthorized_def)

subsection \<open>C8: an unknown stage\<close>

text \<open>
  Claim C8, as the spec states it, fails: with a matching nonce and a stage that is neither
  \<open>SIGN_IN\<close> nor \<open>ACQUIRE_TOKEN\<close> the handler redirects to \<open>authRoutes.error\<close>, which is not
  the unauthorized route. Here the state is
  \<open>{"stage":"sign_out","path":"/home","nonce":"n1"}\<close>.
\<close>

theorem handleRedirect_unknown_stage_counterexample:
  "decodeState (cryptoProvider (exampleProvider [] True))
       ''eyJzdGFnZSI6InNpZ25fb3V0IiwicGF0aCI6Ii9ob21lIiwibm9uY2UiOiJuMSJ9'' =
     Inr (JObject [(''stage'', JString ''sign_out''), (''path'', JString ''/home''),
                   (''nonce'', JString ''n1'')]) \<and>
   nonce exampleSession = Some ''n1'' \<and>
   unauthorized (authRoutes (appSettings (exampleProvider [] True))) = ''/unauthorized'' \<and>
   response (handleRedirect (exampleProvider [] True)
       (exampleCallback ''eyJzdGFnZSI6InNpZ25fb3V0IiwicGF0aCI6Ii9ob21lIiwibm9uY2UiOiJuMSJ9'')
       exampleSession) = Redirect (jstr ''/error'') \<and>
   response (handleRedirect (exampleProvider [] True)
       (exampleCallback ''eyJzdGFnZSI6InNpZ25fb3V0IiwicGF0aCI6Ii9ob21lIiwibm9uY2UiOiJuMSJ9'')
       exampleSession) \<noteq> Redirect (jstr ''/unauthorized'')"
  by code_simp

text \<open>
  Claim C8, amended. With a matching nonce and a stage that is neither \<open>SIGN_IN\<close> nor
  \<open>ACQUIRE_TOKEN\<close> (a missing stage included), the handler logs
  \<open>CANNOT_DETERMINE_APP_STAGE\<close> and redirects to the configured error route; the session is
  left as it was and no collaborator is called.
\<close>

theorem handleRedirect_unknown_stage:
  assumes "query_state req = Some qs" and "qs \<noteq> []"
    and "decodeState (cryptoProvider this) qs = Inr st" and "st \<noteq> JNull"
    and "strictEquals (property st ''nonce'') (nonce sess)"
    and "property st ''stage'' \<noteq> jstr SIGN_IN"
    and "property st ''stage'' \<noteq> jstr ACQUIRE_TOKEN"
  shows "handleRedirect this req sess =
           \<lparr>response = Redirect (jstr (error (authRoutes (appSettings this)))),
            session_after = sess, events = [LogError CANNOT_DETERMINE_APP_STAGE]\<rparr>"
  using assms by (simp add: handleRedirect_def)

theorem handleRedirect_unknown_stage_witness:
  "decodeState (cryptoProvider (exampleProvider [] True))
       ''eyJzdGFnZSI6InNpZ25fb3V0IiwicGF0aCI6Ii9ob21lIiwibm9uY2UiOiJuMSJ9'' =
     Inr (JObject [(''stage'', JString ''sign_out''), (''path'', JString ''/home''),
                   (''nonce'', JString ''n1'')]) \<and>
   strictEquals
       (property (JObject [(''stage'', JString ''sign_out''), (''path'', JString ''/home''),
                           (''nonce'', JString ''n1'')]) ''nonce'')
       (nonce exampleSession) \<and>
   handleRedirect (exampleProvider [] True)
       (exampleCallback ''eyJzdGFnZSI6InNpZ25fb3V0IiwicGF0aCI6Ii9ob21lIiwibm9uY2UiOiJuMSJ9'')
       exampleSession =
     \<lparr>response = Redirect (jstr ''/error''), session_after = exampleSession,
      events = [LogError CANNOT_DETERMINE_APP_STAGE]\<rparr>"
proof -
  let ?qs = "''eyJzdGFnZSI6InNpZ25fb3V0IiwicGF0aCI6Ii9ob21lIiwibm9uY2UiOiJuMSJ9''"
  let ?st = "JObject [(''stage'', JString ''sign_out''), (''path'', JString ''/home''),
                      (''nonce'', JString ''n1'')]"
  have q: "query_state (exampleCallback ?qs) = Some ?qs"
    by (simp add: exampleCallback_def)
  have ne: "?qs \<noteq> []"
    by simp
  have d: "decodeState (cryptoProvider (exampleProvider [] True)) ?qs = Inr ?st"
    by code_simp
  have nn: "?st \<noteq> JNull"
    by simp
  have m: "strictEquals (property ?st ''nonce'') (nonce exampleSession)"
    by (simp add: strictEquals_def exampleSession_def)
  have s1: "property ?st ''stage'' \<noteq> jstr SIGN_IN"
    by (simp add: SIGN_IN_def)
  have s2: "property ?st ''stage'' \<noteq> jstr ACQUIRE_TOKEN"
    by (simp add: ACQUIRE_TOKEN_def)
  have e: "error (authRoutes (appSettings (exampleProvider [] True))) = ''/error''"
    by (simp add: exampleProvider_def exampleSettings_def)
  from handleRedirect_unknown_stage [OF q ne d nn m s1 s2] d m e show ?thesis
    by simp
qed

subsection \<open>C9: the state round trip\<close>

text \<open>
  Claim C9. For every stage, path and nonce, decoding the encoded state gives back the
  object with exactly these three properties. When the path or the nonce is \<open>undefined\<close>
  the property is absent from the decoded object, so reading it gives \<open>undefined\<close> again.
\<close>

theorem decodeState_encodeState_round_trip:
  "decodeState NodeCryptoProvider
     (encodeState NodeCryptoProvider stage (Some pth) (Some n)) =
     Inr (JObject [(''stage'', JString stage), (''path'', JString pth), (''nonce'', JString n)]) \<and>
   (\<exists>v. decodeState NodeCryptoProvider (encodeState NodeCryptoProvider stage p m) = Inr v \<and>
        v \<noteq> JNull \<and>
        property v ''stage'' = jstr stage \<and>
        property v ''path'' = map_option JString p \<and>
        property v ''nonce'' = map_option JString m)"
proof
  show "decodeState NodeCryptoProvider
     (encodeState NodeCryptoProvider stage (Some pth) (Some n)) =
     Inr (JObject [(''stage'', JString stage), (''path'', JString pth), (''nonce'', JString n)])"
    by (simp add: decodeState_encodeState)
next
  show "\<exists>v. decodeState NodeCryptoProvider (encodeState NodeCryptoProvider stage p m) = Inr v \<and>
        v \<noteq> JNull \<and>
        property v ''stage'' = jstr stage \<and>
        property v ''path'' = map_option JString p \<and>
        property v ''nonce'' = map_option JString m"
    by (cases p; cases m) (simp_all add: decodeState_encodeState)
qed

text \<open>
  So a state built the way \<open>getToken\<close> builds it for the interactive path is one
  \<open>handleRedirect\<close> honours: when it comes back in the same session and the code is
  exchanged, the token is stored for the resource of the pending scopes and the user is
  sent to the URL the first request asked for.
\<close>

lemma handleRedirect_resumes_getToken:
  assumes "cryptoProvider this = NodeCryptoProvider"
    and "query_state req =
           Some (encodeState NodeCryptoProvider ACQUIRE_TOKEN (Some url) (nonce sess))"
    and "tokenRequest sess = Some tr"
    and "acquireTokenByCode (msalClient this) (tr\<lparr>code := query_code req\<rparr>) = Inr tokenResponse"
    and "setAccessToken (sess\<lparr>tokenRequest := Some (tr\<lparr>code := query_code req\<rparr>)\<rparr>)
           (ToString (getResourceNameFromScopes this (AuthorizationCodeRequest.scopes tr)))
           (AuthenticationResult.accessToken tokenResponse) = Inr sess'"
  shows "handleRedirect this req sess =
           \<lparr>response = Redirect (jstr url), session_after = sess',
            events = [Called AcquireTokenByCode]\<rparr>"
proof -
  obtain st where st:
    "decodeState NodeCryptoProvider
       (encodeState NodeCryptoProvider ACQUIRE_TOKEN (Some url) (nonce sess)) = Inr st"
    "st \<noteq> JNull" "property st ''stage'' = jstr ACQUIRE_TOKEN"
    "property st ''path'' = jstr url" "property st ''nonce'' = map_option JString (nonce sess)"
    using decoded_state_properties [of ACQUIRE_TOKEN "Some url" "nonce sess"] by auto
  have ne: "ACQUIRE_TOKEN \<noteq> SIGN_IN"
    by (simp add: ACQUIRE_TOKEN_def SIGN_IN_def)
  show ?thesis
    using assms st ne encodeState_not_empty [of ACQUIRE_TOKEN "Some url" "nonce sess"]
    by (simp add: handleRedirect_def handleRedirect_ACQUIRE_TOKEN_def strictEquals_def Let_def)
qed

subsection \<open>C10: getToken replaces the resources of the session\<close>

text \<open>
  Claim C10. Whatever the session held, after \<open>getToken\<close> its \<open>remoteResources\<close> has exactly
  one property, the resource the scopes of the call name, with the token of this
  acquisition or \<open>null\<close>; entries of other resources, and their tokens, are gone.
\<close>

theorem getToken_replaces_remoteResources:
  "Session.remoteResources (session_after (getToken this options req sess)) =
     Some [(ToString (getResourceNameFromScopes this (Resource.scopes (resource options))),
            sessionResource this
              (ToString (getResourceNameFromScopes this (Resource.scopes (resource options))))
              (case acquireTokenSilent (msalClient this)
                      \<lparr>SilentFlowRequest.account = Session.account sess,
                       SilentFlowRequest.scopes = Resource.scopes (resource options)\<rparr> of
                 Inl err \<Rightarrow> None
               | Inr tokenResponse \<Rightarrow>
                   if isEmpty (AuthenticationResult.accessToken tokenResponse) then None
                   else Some (AuthenticationResult.accessToken tokenResponse)))]"
  by (simp add: getToken_def Let_def getToken_catch_remoteResources setAccessToken_def
      sessionResource_def split: sum.splits option.splits)

text \<open>
  The session of the example holds a token for \<open>armAPI\<close>. After \<open>getToken\<close> for the scopes
  of \<open>graphAPI\<close> it holds \<open>graphAPI\<close> alone, whether the silent acquisition gave a token
  or not.
\<close>

lemma getToken_discards_other_tokens_example:
  "map_option (map fst) (Session.remoteResources exampleSignedIn) = Some [''armAPI''] \<and>
   map_option (map fst)
     (Session.remoteResources (session_after
        (getToken (exampleProvider ''graph-token'' True) exampleOptions
           exampleProfileRequest exampleSignedIn))) = Some [''graphAPI''] \<and>
   map_option (map fst)
     (Session.remoteResources (session_after
        (getToken (exampleProvider [] True) exampleOptions
           exampleProfileRequest exampleSignedIn))) = Some [''graphAPI'']"
  by code_simp

end
